theory Spec2Isabelle
  imports Complex_Main "HOL-Library.Char_ord" "HOL-Library.List_Lexorder"
begin

section \<open>Python values\<close>

text \<open>
  The analyzer is written in Python.  Its unbounded integers are \<open>int\<close> (or \<open>nat\<close> for a
  value that is a count by construction), its floats are read as the real numbers they
  approximate, its dictionaries are maps or association lists (in insertion order when the
  code iterates over them), and every exception the code can raise is a value of
  \<open>py_error\<close> returned on the left of a sum.
\<close>

datatype py_error = ZeroDivisionError | IndexError | ValueError

text \<open>
  Strings are lists of ASCII characters.  \<open>str.strip()\<close> and \<open>str.split()\<close> remove and split
  at the characters for which \<open>str.isspace\<close> holds.
\<close>

definition py_isspace :: "char \<Rightarrow> bool" where
  "py_isspace c =
     (c \<in> set [CHR '' '', CHR 0x09, CHR 0x0A, CHR 0x0B, CHR 0x0C, CHR 0x0D,
                 CHR 0x1C, CHR 0x1D, CHR 0x1E, CHR 0x1F])"

definition py_strip :: "string \<Rightarrow> string" where
  "py_strip s = rev (dropWhile py_isspace (rev (dropWhile py_isspace s)))"

text \<open>
  \<open>str.splitlines()\<close>: a line ends at a line feed, a carriage return (with the line feed
  that follows it, if any), a vertical tab, a form feed or a file, group or record
  separator; the text after the last line end is a line when it is not empty.
\<close>

definition is_linebreak :: "char \<Rightarrow> bool" where
  "is_linebreak c = (c \<in> set [CHR 0x0A, CHR 0x0D, CHR 0x0B, CHR 0x0C, CHR 0x1C, CHR 0x1D, CHR 0x1E])"

fun splitlines_from :: "string \<Rightarrow> string \<Rightarrow> string list" where
  "splitlines_from line [] = (if line = [] then [] else [line])"
| "splitlines_from line [c] = (if is_linebreak c then [line] else [line @ [c]])"
| "splitlines_from line (c # d # cs) =
     (if c = CHR 0x0D \<and> d = CHR 0x0A then line # splitlines_from [] cs
      else if is_linebreak c then line # splitlines_from [] (d # cs)
      else splitlines_from (line @ [c]) (d # cs))"

definition py_splitlines :: "string \<Rightarrow> string list" where
  "py_splitlines s = splitlines_from [] s"

text \<open>\<open>str.split()\<close> without arguments: the maximal runs of characters that are not whitespace.\<close>

fun split_from :: "string \<Rightarrow> string \<Rightarrow> string list" where
  "split_from tok [] = (if tok = [] then [] else [tok])"
| "split_from tok (c # cs) =
     (if py_isspace c then (if tok = [] then split_from [] cs else tok # split_from [] cs)
      else split_from (tok @ [c]) cs)"

definition py_split :: "string \<Rightarrow> string list" where
  "py_split s = split_from [] s"

text \<open>\<open>sep.join(items)\<close>.\<close>

fun join_with :: "string \<Rightarrow> string list \<Rightarrow> string" where
  "join_with sep [] = []"
| "join_with sep [t] = t"
| "join_with sep (t # ts) = t @ sep @ join_with sep ts"

text \<open>\<open>x or default\<close> on an optional string: \<open>None\<close> and the empty string are falsy.\<close>

definition str_or :: "string option \<Rightarrow> string \<Rightarrow> string" where
  "str_or x d = (case x of None \<Rightarrow> d | Some s \<Rightarrow> if s = [] then d else s)"

text \<open>\<open>d.get(k, default)\<close> on a dictionary.\<close>

definition dict_get :: "('k \<rightharpoonup> 'v) \<Rightarrow> 'k \<Rightarrow> 'v \<Rightarrow> 'v" where
  "dict_get d k dflt = (case d k of None \<Rightarrow> dflt | Some v \<Rightarrow> v)"

section \<open>Outcome of an external tool\<close>

text \<open>
  \<open>subprocess.run\<close> either raises \<open>OSError\<close> or \<open>TimeoutExpired\<close> (the message of the
  exception is kept), or completes with a return code, its standard output and its
  standard error.
\<close>

datatype proc_result =
  Unavailable string
  | Completed int string string

section \<open>Typing analysis (cq/analyzers/typing.py)\<close>

record TypingScale =
  max_score_at_0 :: real
  zero_score_at_20 :: real

record TypingResult =
  t_errors :: "string \<rightharpoonup> nat"
  t_scores :: "string \<rightharpoonup> real"
  t_coverage :: "string \<rightharpoonup> real"
  t_degraded :: bool
  t_missing_reason :: "string option"

text \<open>
  \<open>MYPY_ERROR_RE\<close>: \<open>^(?P<path>[^:]+):(?P<line>\d+): (?P<type>error|note): (?P<message>.+)$\<close>.
  The match returns the groups \<open>path\<close> and \<open>type\<close>, the only ones the analyzer reads.
\<close>

definition is_digit :: "char \<Rightarrow> bool" where
  "is_digit c = (c \<in> set ''0123456789'')"

definition starts_with :: "'a list \<Rightarrow> 'a list \<Rightarrow> bool" where
  "starts_with s p = (take (length p) s = p)"

definition mypy_match :: "string \<Rightarrow> (string \<times> string) option" where
  "mypy_match line =
     (let path = takeWhile (\<lambda>c. c \<noteq> CHR '':'') line;
          r1 = dropWhile (\<lambda>c. c \<noteq> CHR '':'') line;
          r2 = drop 1 r1;
          digits = takeWhile is_digit r2;
          r3 = dropWhile is_digit r2;
          r4 = drop 2 r3
      in if path = [] \<or> r1 = [] \<or> digits = [] \<or> \<not> starts_with r3 '': '' then None
         else if starts_with r4 ''error: '' \<and> drop 7 r4 \<noteq> [] then Some (path, ''error'')
         else if starts_with r4 ''note: '' \<and> drop 6 r4 \<noteq> [] then Some (path, ''note'')
         else None)"

text \<open>The loop over the lines of standard output: \<open>errors[path] += 1\<close> on a defaultdict.\<close>

fun count_errors :: "string list \<Rightarrow> (string \<rightharpoonup> nat) \<Rightarrow> (string \<rightharpoonup> nat)" where
  "count_errors [] errors = errors"
| "count_errors (line # lns) errors =
     (case mypy_match line of
        Some (path, ty) \<Rightarrow>
          if ty = ''error'' then count_errors lns (errors(path \<mapsto> dict_get errors path 0 + 1))
          else count_errors lns errors
      | None \<Rightarrow> count_errors lns errors)"

text \<open>
  The body of the scoring loop for one file.  The division \<open>max_score / zero_score_at\<close>
  raises \<open>ZeroDivisionError\<close> when it is reached with \<open>zero_score_at = 0\<close>.
\<close>

definition typing_file_score :: "TypingScale \<Rightarrow> nat \<Rightarrow> int \<Rightarrow> py_error + real" where
  "typing_file_score sc err_count loc =
     (let density = real (err_count * 1000) / real_of_int (max 1 loc);
          max_score = max_score_at_0 sc;
          zero_score_at = zero_score_at_20 sc
      in if density \<ge> zero_score_at then Inr 0
         else if zero_score_at = 0 then Inl ZeroDivisionError
         else Inr (max 0 (max_score - (max_score / zero_score_at) * density)))"

fun typing_scores_loop ::
  "TypingScale \<Rightarrow> (string \<rightharpoonup> nat) \<Rightarrow> (string \<times> int) list \<Rightarrow> (string \<rightharpoonup> real)
     \<Rightarrow> py_error + (string \<rightharpoonup> real)" where
  "typing_scores_loop sc errors [] scores = Inr scores"
| "typing_scores_loop sc errors ((path, loc) # rest) scores =
     (case typing_file_score sc (dict_get errors path 0) loc of
        Inl e \<Rightarrow> Inl e
      | Inr score \<Rightarrow> typing_scores_loop sc errors rest (scores(path \<mapsto> score)))"

text \<open>
  \<open>TypingAnalyzer.analyze\<close>.  The list of files only builds the command line; what the
  command did is the \<open>proc_result\<close>.  \<open>loc_map\<close> is the dictionary in iteration order.
\<close>

definition typing_analyze ::
  "TypingScale \<Rightarrow> proc_result \<Rightarrow> (string \<times> int) list \<Rightarrow> (string \<rightharpoonup> real)
     \<Rightarrow> py_error + TypingResult" where
  "typing_analyze sc completed loc_map coverage =
     (case completed of
        Unavailable exc \<Rightarrow>
          Inr \<lparr>t_errors = Map.empty, t_scores = Map.empty, t_coverage = coverage,
               t_degraded = True, t_missing_reason = Some (''mypy unavailable: '' @ exc)\<rparr>
      | Completed returncode stdout stderr \<Rightarrow>
          if returncode \<notin> {0, 1} then
            Inr \<lparr>t_errors = Map.empty, t_scores = Map.empty, t_coverage = coverage,
                 t_degraded = True,
                 t_missing_reason = Some (str_or (Some (py_strip stderr)) ''mypy run failed'')\<rparr>
          else
            (let errors = count_errors (py_splitlines stdout) Map.empty
             in case typing_scores_loop sc errors loc_map Map.empty of
                  Inl e \<Rightarrow> Inl e
                | Inr scores \<Rightarrow>
                    Inr \<lparr>t_errors = errors, t_scores = scores, t_coverage = coverage,
                         t_degraded = False, t_missing_reason = None\<rparr>))"

text \<open>\<open>DEFAULT_CONFIG["scoring"]["typing_error_scale"]["per_1k_loc"]\<close> (cq/config.py).\<close>

definition default_typing_scale :: TypingScale where
  "default_typing_scale = \<lparr>max_score_at_0 = 100, zero_score_at_20 = 0\<rparr>"

section \<open>Duplication analysis (cq/analyzers/duplication.py)\<close>

subsection \<open>Hashing of k-grams\<close>

text \<open>
  \<open>_stable_hash\<close> reads the first eight hexadecimal digits of the MD5 digest of the text as
  an integer: the first four bytes of the digest, most significant first.  The digest
  function of \<open>hashlib\<close> is a parameter \<open>md5\<close> from the bytes of the text to the sixteen
  bytes of the digest.
\<close>

definition stable_hash :: "(string \<Rightarrow> string) \<Rightarrow> string \<Rightarrow> nat" where
  "stable_hash md5 text_in = foldl (\<lambda>acc c. acc * 256 + of_char c) 0 (take 4 (md5 text_in))"

text \<open>\<open>" ".join(tokens)\<close>.\<close>

fun join_space :: "string list \<Rightarrow> string" where
  "join_space [] = []"
| "join_space [t] = t"
| "join_space (t # ts) = t @ '' '' @ join_space ts"

subsection \<open>Winnowing\<close>

text \<open>
  \<open>min(window, key=lambda x: (x[0], x[1]))\<close>: the first element of the window whose
  (hash, position) pair is least; \<open>min\<close> keeps the element it holds unless the next one is
  strictly smaller.
\<close>

definition key_less :: "nat \<times> nat \<Rightarrow> nat \<times> nat \<Rightarrow> bool" where
  "key_less x y = (fst x < fst y \<or> (fst x = fst y \<and> snd x < snd y))"

fun py_min_from :: "nat \<times> nat \<Rightarrow> (nat \<times> nat) list \<Rightarrow> nat \<times> nat" where
  "py_min_from best [] = best"
| "py_min_from best (x # xs) = py_min_from (if key_less x best then x else best) xs"

definition py_min :: "(nat \<times> nat) list \<Rightarrow> py_error + nat \<times> nat" where
  "py_min window = (case window of [] \<Rightarrow> Inl ValueError | x # xs \<Rightarrow> Inr (py_min_from x xs))"

text \<open>
  The loop of \<open>_fingerprints\<close> over the k-gram hashes, each paired with its position.  The
  state is the window, the pair \<open>(min_hash, min_pos)\<close> (\<open>None\<close> for \<open>(None, None)\<close>) and the
  list of hashes selected so far.
\<close>

fun winnow_loop ::
  "nat \<Rightarrow> (nat \<times> nat) list \<Rightarrow> (nat \<times> nat) list \<Rightarrow> (nat \<times> nat) option \<Rightarrow> nat list
     \<Rightarrow> py_error + nat list" where
  "winnow_loop w [] window mn hashes = Inr hashes"
| "winnow_loop w (hp # rest) window mn hashes =
     (let window1 = window @ [hp];
          window2 = (if length window1 > w then tl window1 else window1)
      in case py_min window2 of
           Inl e \<Rightarrow> Inl e
         | Inr current_min \<Rightarrow>
             if mn \<noteq> Some current_min
             then winnow_loop w rest window2 (Some current_min) (hashes @ [fst current_min])
             else winnow_loop w rest window2 mn hashes)"

text \<open>\<open>DuplicationAnalyzer._fingerprints\<close>, with \<open>config.k\<close> and \<open>config.w\<close> as given.\<close>

definition kgram :: "nat \<Rightarrow> string list \<Rightarrow> nat \<Rightarrow> string list" where
  "kgram k tokens i = take k (drop i tokens)"

definition fingerprints ::
  "(string \<Rightarrow> string) \<Rightarrow> int \<Rightarrow> int \<Rightarrow> string list \<Rightarrow> py_error + nat list" where
  "fingerprints md5 config_k config_w tokens =
     (let k = nat (max 1 config_k);
          w = nat (max 1 config_w)
      in if length tokens < k then
           (if tokens = [] then Inr [] else Inr [stable_hash md5 (join_space tokens)])
         else
           winnow_loop w
             (map (\<lambda>i. (stable_hash md5 (join_space (kgram k tokens i)), i))
                [0 ..< length tokens - k + 1])
             [] None [])"

subsection \<open>Overlap ratios\<close>

text \<open>
  \<open>_compute_ratios\<close>.  \<open>items\<close> is the list of the dictionary's items.  The inner loop adds
  \<open>len(set_self.intersection(other_fprints))\<close>, the size of a set, for every item under
  another path.
\<close>

fun overlaps_loop :: "string \<Rightarrow> nat set \<Rightarrow> (string \<times> nat list) list \<Rightarrow> nat \<Rightarrow> nat" where
  "overlaps_loop path set_self [] overlaps = overlaps"
| "overlaps_loop path set_self ((other_path, other_fprints) # rest) overlaps =
     (if other_path = path then overlaps_loop path set_self rest overlaps
      else overlaps_loop path set_self rest (overlaps + card (set_self \<inter> set other_fprints)))"

fun ratios_loop ::
  "(string \<times> nat list) list \<Rightarrow> (string \<times> nat list) list \<Rightarrow> (string \<rightharpoonup> real)
     \<Rightarrow> (string \<rightharpoonup> real)" where
  "ratios_loop items [] ratio = ratio"
| "ratios_loop items ((path, fprints) # rest) ratio =
     (if fprints = [] then ratios_loop items rest (ratio(path \<mapsto> 0))
      else
        (let overlaps = overlaps_loop path (set fprints) items 0;
             set_self = set fprints
         in ratios_loop items rest
              (ratio(path \<mapsto> min 1 (real overlaps / real (max 1 (card set_self)))))))"

definition compute_ratios :: "(string \<times> nat list) list \<Rightarrow> (string \<rightharpoonup> real)" where
  "compute_ratios fingerprints_items = ratios_loop fingerprints_items fingerprints_items Map.empty"

text \<open>
  The overlap count and the ratio in the words of the specification: per other file, the
  number of elements of its fingerprint list, counted with multiplicity, that lie in the
  set of the file's own fingerprints.
\<close>

definition spec_overlap_count :: "(string \<times> nat list) list \<Rightarrow> string \<Rightarrow> nat list \<Rightarrow> nat" where
  "spec_overlap_count items path fprints =
     sum_list (map (\<lambda>(g, other). length (filter (\<lambda>x. x \<in> set fprints) other))
                 (filter (\<lambda>(g, other). g \<noteq> path) items))"

definition spec_ratio :: "(string \<times> nat list) list \<Rightarrow> string \<Rightarrow> nat list \<Rightarrow> real" where
  "spec_ratio items path fprints =
     (if fprints = [] then 0
      else min 1 (real (spec_overlap_count items path fprints) / real (max 1 (card (set fprints)))))"

text \<open>The count the code computes: per other file, the number of distinct common values.\<close>

definition distinct_overlap_count :: "(string \<times> nat list) list \<Rightarrow> string \<Rightarrow> nat list \<Rightarrow> nat" where
  "distinct_overlap_count items path fprints =
     sum_list (map (\<lambda>(g, other). card (set fprints \<inter> set other))
                 (filter (\<lambda>(g, other). g \<noteq> path) items))"

section \<open>Bootstrap interval (cq/runner.py)\<close>

text \<open>
  \<open>random.Random(seed)\<close> is a library object.  What \<open>_bootstrap_interval\<close> needs of it is
  the sequence of numbers it draws: the parameter \<open>Random\<close> gives, for a seed, the raw
  draws in order, and \<open>rng.choice(values)\<close> reads the element at the next draw reduced below
  \<open>len(values)\<close>.
\<close>

definition rng_choice :: "'a list \<Rightarrow> nat \<Rightarrow> 'a" where
  "rng_choice vals r = vals ! (r mod length vals)"

text \<open>\<open>statistics.mean\<close> of a non-empty list.\<close>

definition mean :: "real list \<Rightarrow> real" where
  "mean xs = sum_list xs / real (length xs)"

text \<open>\<open>int(x)\<close> on a float truncates towards zero.\<close>

definition py_int :: "real \<Rightarrow> int" where
  "py_int x = (if 0 \<le> x then \<lfloor>x\<rfloor> else \<lceil>x\<rceil>)"

text \<open>
  \<open>xs[i]\<close> on a list: positions \<open>0 .. len - 1\<close> are read directly, positions
  \<open>-len .. -1\<close> are read from the end, and every other position raises \<open>IndexError\<close>.
\<close>

definition py_index :: "'a list \<Rightarrow> int \<Rightarrow> py_error + 'a" where
  "py_index xs i =
     (if 0 \<le> i \<and> i < int (length xs) then Inr (xs ! nat i)
      else if i < 0 \<and> - int (length xs) \<le> i then Inr (xs ! nat (int (length xs) + i))
      else Inl IndexError)"

text \<open>The sample means before sorting: trial \<open>t\<close> draws \<open>len(values)\<close> grades.\<close>

definition bootstrap_samples :: "(int \<Rightarrow> nat \<Rightarrow> nat) \<Rightarrow> real list \<Rightarrow> int \<Rightarrow> int \<Rightarrow> real list" where
  "bootstrap_samples Random vals iterations seed =
     map (\<lambda>t. mean (map (\<lambda>j. rng_choice vals (Random seed (t * length vals + j)))
                       [0 ..< length vals]))
       [0 ..< nat iterations]"

definition lower_idx :: "int \<Rightarrow> int" where
  "lower_idx n = max 0 (py_int (0.05 * real_of_int (n - 1)))"

definition upper_idx :: "int \<Rightarrow> int" where
  "upper_idx n = min (n - 1) (py_int (0.95 * real_of_int (n - 1)))"

definition bootstrap_interval ::
  "(int \<Rightarrow> nat \<Rightarrow> nat) \<Rightarrow> real list \<Rightarrow> int \<Rightarrow> int \<Rightarrow> py_error + real list" where
  "bootstrap_interval Random vals iterations seed =
     (if vals = [] then Inr [0, 0]
      else
        (let samples = sort (bootstrap_samples Random vals iterations seed);
             n = int (length samples)
         in case py_index samples (lower_idx n) of
              Inl e \<Rightarrow> Inl e
            | Inr lower \<Rightarrow>
                (case py_index samples (upper_idx n) of
                   Inl e \<Rightarrow> Inl e
                 | Inr upper \<Rightarrow> Inr [lower, upper])))"

section \<open>Auxiliary notions for the proofs\<close>

text \<open>The last \<open>w\<close> elements of a list: the window after the k-gram hashes seen so far.\<close>

definition lastn :: "nat \<Rightarrow> 'a list \<Rightarrow> 'a list" where
  "lastn w xs = drop (length xs - w) xs"

text \<open>The least hash of a non-empty window.\<close>

definition window_min_hash :: "(nat \<times> nat) list \<Rightarrow> nat" where
  "window_min_hash window = fold min (map fst (tl window)) (fst (hd window))"

text \<open>The ratio \<open>_compute_ratios\<close> stores for a file, from its fingerprints.\<close>

definition code_ratio :: "(string \<times> nat list) list \<Rightarrow> string \<Rightarrow> nat list \<Rightarrow> real" where
  "code_ratio items path fprints =
     (if fprints = [] then 0
      else min 1 (real (distinct_overlap_count items path fprints) / real (max 1 (card (set fprints)))))"

section \<open>Python syntax trees\<close>

text \<open>
  The analyzers work on the trees of Python's \<open>ast\<close> module.  The model covers the
  statements and expressions below, with the fields of each node in the order of the
  node's \<open>_fields\<close> (the order in which \<open>generic_visit\<close> and \<open>ast.walk\<close> reach the children);
  fields that hold no node and that no analyzer reads (\<open>type_comment\<close>, \<open>kind\<close>) are left
  out.  A keyword argument is the pair of its optional name and its value, a \<open>with\<close> item the
  pair of its context expression and its optional variables, an import alias the pair of
  its name and its optional \<open>asname\<close>.  Results about "every parseable source" are results
  about every module built from these nodes.
\<close>

datatype py_const = CNone | CBool bool | CNum int | CStr string | CEllipsis

datatype expr_context = Load | Store | Del

datatype boolop = And | Or

datatype expr =
  BoolOp boolop "expr list"
  | BinOp expr string expr
  | UnaryOp string expr
  | Compare expr "string list" "expr list"
  | Call expr "expr list" "(string option \<times> expr) list"
  | Constant py_const
  | Attribute expr string expr_context
  | Name string expr_context

datatype arg = Arg string "expr option"

datatype arguments =
  Arguments "arg list" "arg list" "arg option" "arg list" "expr option list" "arg option" "expr list"

datatype stmt =
  FunctionDef string arguments "stmt list" "expr list" "expr option"
  | AsyncFunctionDef string arguments "stmt list" "expr list" "expr option"
  | ClassDef string "expr list" "(string option \<times> expr) list" "stmt list" "expr list"
  | Return "expr option"
  | Assign "expr list" expr
  | For expr expr "stmt list" "stmt list"
  | While expr "stmt list" "stmt list"
  | IfStmt expr "stmt list" "stmt list"
  | With "(expr \<times> expr option) list" "stmt list"
  | Try "stmt list" "handler list" "stmt list" "stmt list"
  | Import "(string \<times> string option) list"
  | ImportFrom "string option" "(string \<times> string option) list" int
  | Expr expr
  | Pass
and handler = ExceptHandler "expr option" "string option" "stmt list"

datatype py_module = Module "stmt list"

section \<open>Cognitive complexity (cq/analyzers/complexity.py)\<close>

text \<open>
  \<open>_compute\<close> keeps two variables shared by the visitor methods: the counter \<open>complexity\<close>
  and the list \<open>stack\<close>.  Every visitor method is a function from the state before the visit
  to the state after it; a sequence of visits is the composition of these functions, read
  from right to left.  \<open>visit\<close> dispatches on the class of the node: \<open>visit_stmt\<close> and
  \<open>visit_expr\<close> call the method the \<open>Visitor\<close> class defines for the node, and
  \<open>generic_visit\<close> otherwise, which visits the children in field order.
\<close>

record cstate =
  complexity :: nat
  stack :: "nat list"

definition enter :: "nat \<Rightarrow> cstate \<Rightarrow> cstate" where
  "enter extra st = st\<lparr>complexity := complexity st + (extra + length (stack st)), stack := stack st @ [1]\<rparr>"

definition leave :: "cstate \<Rightarrow> cstate" where
  "leave st = (if stack st \<noteq> [] then st\<lparr>stack := butlast (stack st)\<rparr> else st)"

fun visit_expr :: "expr \<Rightarrow> cstate \<Rightarrow> cstate"
  and generic_visit_expr :: "expr \<Rightarrow> cstate \<Rightarrow> cstate"
  and visit_exprs :: "expr list \<Rightarrow> cstate \<Rightarrow> cstate"
  and visit_keywords :: "(string option \<times> expr) list \<Rightarrow> cstate \<Rightarrow> cstate" where
  "visit_expr (BoolOp op vals) st =
     generic_visit_expr (BoolOp op vals) (st\<lparr>complexity := complexity st + nat (max 0 (int (length vals) - 1))\<rparr>)"
| "visit_expr (BinOp l op r) st = generic_visit_expr (BinOp l op r) st"
| "visit_expr (UnaryOp op e) st = generic_visit_expr (UnaryOp op e) st"
| "visit_expr (Compare l ops cs) st = generic_visit_expr (Compare l ops cs) st"
| "visit_expr (Call f args ks) st = generic_visit_expr (Call f args ks) st"
| "visit_expr (Constant c) st = generic_visit_expr (Constant c) st"
| "visit_expr (Attribute e a ctx) st = generic_visit_expr (Attribute e a ctx) st"
| "visit_expr (Name n ctx) st = generic_visit_expr (Name n ctx) st"
| "generic_visit_expr (BoolOp op vals) st = visit_exprs vals st"
| "generic_visit_expr (BinOp l op r) st = visit_expr r (visit_expr l st)"
| "generic_visit_expr (UnaryOp op e) st = visit_expr e st"
| "generic_visit_expr (Compare l ops cs) st = visit_exprs cs (visit_expr l st)"
| "generic_visit_expr (Call f args ks) st = visit_keywords ks (visit_exprs args (visit_expr f st))"
| "generic_visit_expr (Constant c) st = st"
| "generic_visit_expr (Attribute e a ctx) st = visit_expr e st"
| "generic_visit_expr (Name n ctx) st = st"
| "visit_exprs [] st = st"
| "visit_exprs (e # es) st = visit_exprs es (visit_expr e st)"
| "visit_keywords [] st = st"
| "visit_keywords ((k, e) # ks) st = visit_keywords ks (visit_expr e st)"

fun visit_expr_opt :: "expr option \<Rightarrow> cstate \<Rightarrow> cstate" where
  "visit_expr_opt None st = st"
| "visit_expr_opt (Some e) st = visit_expr e st"

fun visit_expr_opts :: "expr option list \<Rightarrow> cstate \<Rightarrow> cstate" where
  "visit_expr_opts [] st = st"
| "visit_expr_opts (e # es) st = visit_expr_opts es (visit_expr_opt e st)"

fun visit_arg :: "arg \<Rightarrow> cstate \<Rightarrow> cstate" where
  "visit_arg (Arg name annotation) st = visit_expr_opt annotation st"

fun visit_arg_list :: "arg list \<Rightarrow> cstate \<Rightarrow> cstate" where
  "visit_arg_list [] st = st"
| "visit_arg_list (a # as) st = visit_arg_list as (visit_arg a st)"

fun visit_arg_opt :: "arg option \<Rightarrow> cstate \<Rightarrow> cstate" where
  "visit_arg_opt None st = st"
| "visit_arg_opt (Some a) st = visit_arg a st"

fun visit_arguments :: "arguments \<Rightarrow> cstate \<Rightarrow> cstate" where
  "visit_arguments (Arguments posonlyargs args vararg kwonlyargs kw_defaults kwarg defaults) st =
     visit_exprs defaults (visit_arg_opt kwarg (visit_expr_opts kw_defaults
       (visit_arg_list kwonlyargs (visit_arg_opt vararg (visit_arg_list args
          (visit_arg_list posonlyargs st))))))"

fun visit_withitems :: "(expr \<times> expr option) list \<Rightarrow> cstate \<Rightarrow> cstate" where
  "visit_withitems [] st = st"
| "visit_withitems ((context_expr, optional_vars) # items) st =
     visit_withitems items (visit_expr_opt optional_vars (visit_expr context_expr st))"

fun is_If :: "stmt \<Rightarrow> bool" where
  "is_If (IfStmt test body orelse) = True"
| "is_If s = False"

fun visit_stmt :: "stmt \<Rightarrow> cstate \<Rightarrow> cstate"
  and generic_visit_stmt :: "stmt \<Rightarrow> cstate \<Rightarrow> cstate"
  and visit_stmts :: "stmt list \<Rightarrow> cstate \<Rightarrow> cstate"
  and visit_orelse_ifs :: "stmt list \<Rightarrow> cstate \<Rightarrow> cstate"
  and visit_orelse_rest :: "stmt list \<Rightarrow> cstate \<Rightarrow> cstate"
  and visit_try_handlers :: "handler list \<Rightarrow> cstate \<Rightarrow> cstate"
  and generic_visit_handler :: "handler \<Rightarrow> cstate \<Rightarrow> cstate"
  and visit_handlers :: "handler list \<Rightarrow> cstate \<Rightarrow> cstate" where
  "visit_stmt (IfStmt test body orelse) =
     leave \<circ> visit_orelse_rest orelse \<circ> visit_stmts body \<circ> generic_visit_expr test
       \<circ> visit_orelse_ifs orelse \<circ> enter 1"
| "visit_stmt (For target iter body orelse) =
     leave \<circ> generic_visit_stmt (For target iter body orelse) \<circ> enter 1"
| "visit_stmt (While test body orelse) =
     leave \<circ> generic_visit_stmt (While test body orelse) \<circ> enter 1"
| "visit_stmt (With items body) =
     leave \<circ> generic_visit_stmt (With items body) \<circ> enter 1"
| "visit_stmt (Try body handlers orelse finalbody) =
     leave \<circ> visit_stmts orelse \<circ> visit_stmts body
       \<circ> (if finalbody \<noteq> [] then leave \<circ> visit_stmts finalbody \<circ> enter 1 else id)
       \<circ> visit_try_handlers handlers \<circ> enter 1"
| "visit_stmt (Return v) =
     generic_visit_stmt (Return v) \<circ> (\<lambda>st. st\<lparr>complexity := complexity st + 1\<rparr>)"
| "visit_stmt (FunctionDef name args body decorator_list returns) =
     generic_visit_stmt (FunctionDef name args body decorator_list returns)"
| "visit_stmt (AsyncFunctionDef name args body decorator_list returns) =
     generic_visit_stmt (AsyncFunctionDef name args body decorator_list returns)"
| "visit_stmt (ClassDef name bases keywords body decorator_list) =
     generic_visit_stmt (ClassDef name bases keywords body decorator_list)"
| "visit_stmt (Assign targets v) = generic_visit_stmt (Assign targets v)"
| "visit_stmt (Import names) = generic_visit_stmt (Import names)"
| "visit_stmt (ImportFrom modname names level) = generic_visit_stmt (ImportFrom modname names level)"
| "visit_stmt (Expr v) = generic_visit_stmt (Expr v)"
| "visit_stmt Pass = generic_visit_stmt Pass"
| "generic_visit_stmt (FunctionDef name args body decorator_list returns) =
     visit_expr_opt returns \<circ> visit_exprs decorator_list \<circ> visit_stmts body \<circ> visit_arguments args"
| "generic_visit_stmt (AsyncFunctionDef name args body decorator_list returns) =
     visit_expr_opt returns \<circ> visit_exprs decorator_list \<circ> visit_stmts body \<circ> visit_arguments args"
| "generic_visit_stmt (ClassDef name bases keywords body decorator_list) =
     visit_exprs decorator_list \<circ> visit_stmts body \<circ> visit_keywords keywords \<circ> visit_exprs bases"
| "generic_visit_stmt (Return v) = visit_expr_opt v"
| "generic_visit_stmt (Assign targets v) = visit_expr v \<circ> visit_exprs targets"
| "generic_visit_stmt (For target iter body orelse) =
     visit_stmts orelse \<circ> visit_stmts body \<circ> visit_expr iter \<circ> visit_expr target"
| "generic_visit_stmt (While test body orelse) =
     visit_stmts orelse \<circ> visit_stmts body \<circ> visit_expr test"
| "generic_visit_stmt (IfStmt test body orelse) =
     visit_stmts orelse \<circ> visit_stmts body \<circ> visit_expr test"
| "generic_visit_stmt (With items body) = visit_stmts body \<circ> visit_withitems items"
| "generic_visit_stmt (Try body handlers orelse finalbody) =
     visit_stmts finalbody \<circ> visit_stmts orelse \<circ> visit_handlers handlers \<circ> visit_stmts body"
| "generic_visit_stmt (Import names) = id"
| "generic_visit_stmt (ImportFrom modname names level) = id"
| "generic_visit_stmt (Expr v) = visit_expr v"
| "generic_visit_stmt Pass = id"
| "visit_stmts [] = id"
| "visit_stmts (s # ss) = visit_stmts ss \<circ> visit_stmt s"
| "visit_orelse_ifs [] = id"
| "visit_orelse_ifs (s # ss) =
     visit_orelse_ifs ss \<circ> (if is_If s then leave \<circ> generic_visit_stmt s \<circ> enter 1 else id)"
| "visit_orelse_rest [] = id"
| "visit_orelse_rest (s # ss) = visit_orelse_rest ss \<circ> (if is_If s then id else visit_stmt s)"
| "visit_try_handlers [] = id"
| "visit_try_handlers (h # hs) =
     visit_try_handlers hs \<circ> leave \<circ> generic_visit_handler h \<circ> enter 1"
| "generic_visit_handler (ExceptHandler ty name body) = visit_stmts body \<circ> visit_expr_opt ty"
| "visit_handlers [] = id"
| "visit_handlers (h # hs) = visit_handlers hs \<circ> generic_visit_handler h"

definition compute :: "py_module \<Rightarrow> nat" where
  "compute tree = (case tree of Module body \<Rightarrow>
     complexity (visit_stmts body \<lparr>complexity = 0, stack = []\<rparr>))"

section \<open>Auxiliary notions for the complexity proofs\<close>

text \<open>
  The amount a visit adds to the counter, as a function of the node and of the depth of the
  stack at the start of the visit; adding an amount to the counter; pushing a frame;
  inserting a statement into a statement list of a tree, at any position and at any
  nesting level; an \<open>if\<close>/\<open>elif\<close> chain built from its branches and its final \<open>else\<close> body.
\<close>

fun cost_expr :: "expr \<Rightarrow> nat"
  and gcost_expr :: "expr \<Rightarrow> nat"
  and cost_exprs :: "expr list \<Rightarrow> nat"
  and cost_keywords :: "(string option \<times> expr) list \<Rightarrow> nat" where
  "cost_expr (BoolOp op vals) = (length vals - 1) + gcost_expr (BoolOp op vals)"
| "cost_expr (BinOp l op r) = gcost_expr (BinOp l op r)"
| "cost_expr (UnaryOp op e) = gcost_expr (UnaryOp op e)"
| "cost_expr (Compare l ops cs) = gcost_expr (Compare l ops cs)"
| "cost_expr (Call f args ks) = gcost_expr (Call f args ks)"
| "cost_expr (Constant c) = 0"
| "cost_expr (Attribute e a ctx) = gcost_expr (Attribute e a ctx)"
| "cost_expr (Name n ctx) = 0"
| "gcost_expr (BoolOp op vals) = cost_exprs vals"
| "gcost_expr (BinOp l op r) = cost_expr l + cost_expr r"
| "gcost_expr (UnaryOp op e) = cost_expr e"
| "gcost_expr (Compare l ops cs) = cost_expr l + cost_exprs cs"
| "gcost_expr (Call f args ks) = cost_expr f + cost_exprs args + cost_keywords ks"
| "gcost_expr (Constant c) = 0"
| "gcost_expr (Attribute e a ctx) = cost_expr e"
| "gcost_expr (Name n ctx) = 0"
| "cost_exprs [] = 0"
| "cost_exprs (e # es) = cost_expr e + cost_exprs es"
| "cost_keywords [] = 0"
| "cost_keywords ((k, e) # ks) = cost_expr e + cost_keywords ks"

definition bump :: "nat \<Rightarrow> cstate \<Rightarrow> cstate" where
  "bump n st = st\<lparr>complexity := complexity st + n\<rparr>"

fun cost_expr_opt :: "expr option \<Rightarrow> nat" where
  "cost_expr_opt None = 0"
| "cost_expr_opt (Some e) = cost_expr e"

fun cost_arg :: "arg \<Rightarrow> nat" where
  "cost_arg (Arg name annotation) = cost_expr_opt annotation"

fun cost_arg_opt :: "arg option \<Rightarrow> nat" where
  "cost_arg_opt None = 0"
| "cost_arg_opt (Some a) = cost_arg a"

fun cost_arguments :: "arguments \<Rightarrow> nat" where
  "cost_arguments (Arguments posonlyargs args vararg kwonlyargs kw_defaults kwarg defaults) =
     sum_list (map cost_arg posonlyargs) + sum_list (map cost_arg args) + cost_arg_opt vararg
     + sum_list (map cost_arg kwonlyargs) + sum_list (map cost_expr_opt kw_defaults)
     + cost_arg_opt kwarg + cost_exprs defaults"

fun cost_withitems :: "(expr \<times> expr option) list \<Rightarrow> nat" where
  "cost_withitems [] = 0"
| "cost_withitems ((context_expr, optional_vars) # items) =
     cost_expr context_expr + cost_expr_opt optional_vars + cost_withitems items"

fun cost_stmt :: "stmt \<Rightarrow> nat \<Rightarrow> nat"
  and gcost_stmt :: "stmt \<Rightarrow> nat \<Rightarrow> nat"
  and cost_stmts :: "stmt list \<Rightarrow> nat \<Rightarrow> nat"
  and cost_orelse_ifs :: "stmt list \<Rightarrow> nat \<Rightarrow> nat"
  and cost_orelse_rest :: "stmt list \<Rightarrow> nat \<Rightarrow> nat"
  and cost_try_handlers :: "handler list \<Rightarrow> nat \<Rightarrow> nat"
  and gcost_handler :: "handler \<Rightarrow> nat \<Rightarrow> nat"
  and cost_handlers :: "handler list \<Rightarrow> nat \<Rightarrow> nat" where
  "cost_stmt (IfStmt test body orelse) = (\<lambda>d.
     (1 + d) + cost_orelse_ifs orelse (Suc d) + gcost_expr test + cost_stmts body (Suc d)
     + cost_orelse_rest orelse (Suc d))"
| "cost_stmt (For target iter body orelse) = (\<lambda>d. (1 + d) + gcost_stmt (For target iter body orelse) (Suc d))"
| "cost_stmt (While test body orelse) = (\<lambda>d. (1 + d) + gcost_stmt (While test body orelse) (Suc d))"
| "cost_stmt (With items body) = (\<lambda>d. (1 + d) + gcost_stmt (With items body) (Suc d))"
| "cost_stmt (Try body handlers orelse finalbody) = (\<lambda>d.
     (1 + d) + cost_try_handlers handlers (Suc d)
     + (if finalbody \<noteq> [] then (1 + Suc d) + cost_stmts finalbody (Suc (Suc d)) else 0)
     + cost_stmts body (Suc d) + cost_stmts orelse (Suc d))"
| "cost_stmt (Return v) = (\<lambda>d. 1 + gcost_stmt (Return v) d)"
| "cost_stmt (FunctionDef name args body decorator_list returns) = (\<lambda>d.
     gcost_stmt (FunctionDef name args body decorator_list returns) d)"
| "cost_stmt (AsyncFunctionDef name args body decorator_list returns) = (\<lambda>d.
     gcost_stmt (AsyncFunctionDef name args body decorator_list returns) d)"
| "cost_stmt (ClassDef name bases keywords body decorator_list) = (\<lambda>d.
     gcost_stmt (ClassDef name bases keywords body decorator_list) d)"
| "cost_stmt (Assign targets v) = (\<lambda>d. gcost_stmt (Assign targets v) d)"
| "cost_stmt (Import names) = (\<lambda>d. 0)"
| "cost_stmt (ImportFrom modname names level) = (\<lambda>d. 0)"
| "cost_stmt (Expr v) = (\<lambda>d. gcost_stmt (Expr v) d)"
| "cost_stmt Pass = (\<lambda>d. 0)"
| "gcost_stmt (FunctionDef name args body decorator_list returns) = (\<lambda>d.
     cost_arguments args + cost_stmts body d + cost_exprs decorator_list + cost_expr_opt returns)"
| "gcost_stmt (AsyncFunctionDef name args body decorator_list returns) = (\<lambda>d.
     cost_arguments args + cost_stmts body d + cost_exprs decorator_list + cost_expr_opt returns)"
| "gcost_stmt (ClassDef name bases keywords body decorator_list) = (\<lambda>d.
     cost_exprs bases + cost_keywords keywords + cost_stmts body d + cost_exprs decorator_list)"
| "gcost_stmt (Return v) = (\<lambda>d. cost_expr_opt v)"
| "gcost_stmt (Assign targets v) = (\<lambda>d. cost_exprs targets + cost_expr v)"
| "gcost_stmt (For target iter body orelse) = (\<lambda>d.
     cost_expr target + cost_expr iter + cost_stmts body d + cost_stmts orelse d)"
| "gcost_stmt (While test body orelse) = (\<lambda>d. cost_expr test + cost_stmts body d + cost_stmts orelse d)"
| "gcost_stmt (IfStmt test body orelse) = (\<lambda>d. cost_expr test + cost_stmts body d + cost_stmts orelse d)"
| "gcost_stmt (With items body) = (\<lambda>d. cost_withitems items + cost_stmts body d)"
| "gcost_stmt (Try body handlers orelse finalbody) = (\<lambda>d.
     cost_stmts body d + cost_handlers handlers d + cost_stmts orelse d + cost_stmts finalbody d)"
| "gcost_stmt (Import names) = (\<lambda>d. 0)"
| "gcost_stmt (ImportFrom modname names level) = (\<lambda>d. 0)"
| "gcost_stmt (Expr v) = (\<lambda>d. cost_expr v)"
| "gcost_stmt Pass = (\<lambda>d. 0)"
| "cost_stmts [] = (\<lambda>d. 0)"
| "cost_stmts (s # ss) = (\<lambda>d. cost_stmt s d + cost_stmts ss d)"
| "cost_orelse_ifs [] = (\<lambda>d. 0)"
| "cost_orelse_ifs (s # ss) = (\<lambda>d.
     (if is_If s then (1 + d) + gcost_stmt s (Suc d) else 0) + cost_orelse_ifs ss d)"
| "cost_orelse_rest [] = (\<lambda>d. 0)"
| "cost_orelse_rest (s # ss) = (\<lambda>d. (if is_If s then 0 else cost_stmt s d) + cost_orelse_rest ss d)"
| "cost_try_handlers [] = (\<lambda>d. 0)"
| "cost_try_handlers (h # hs) = (\<lambda>d. (1 + d) + gcost_handler h (Suc d) + cost_try_handlers hs d)"
| "gcost_handler (ExceptHandler ty name body) = (\<lambda>d. cost_expr_opt ty + cost_stmts body d)"
| "cost_handlers [] = (\<lambda>d. 0)"
| "cost_handlers (h # hs) = (\<lambda>d. gcost_handler h d + cost_handlers hs d)"

definition push :: "cstate \<Rightarrow> cstate" where
  "push st = st\<lparr>stack := stack st @ [1]\<rparr>"

inductive ins_stmts :: "stmt \<Rightarrow> stmt list \<Rightarrow> stmt list \<Rightarrow> bool"
  and ins_stmt :: "stmt \<Rightarrow> stmt \<Rightarrow> stmt \<Rightarrow> bool"
  and ins_handlers :: "stmt \<Rightarrow> handler list \<Rightarrow> handler list \<Rightarrow> bool"
  for new :: stmt where
  ins_here: "ins_stmts new ss (new # ss)"
| ins_later: "ins_stmts new ss ss' \<Longrightarrow> ins_stmts new (s # ss) (s # ss')"
| ins_inside: "ins_stmt new s s' \<Longrightarrow> ins_stmts new (s # ss) (s' # ss)"
| ins_If_body: "ins_stmts new body body' \<Longrightarrow>
    ins_stmt new (IfStmt test body orelse) (IfStmt test body' orelse)"
| ins_If_orelse: "ins_stmts new orelse orelse' \<Longrightarrow>
    ins_stmt new (IfStmt test body orelse) (IfStmt test body orelse')"
| ins_For_body: "ins_stmts new body body' \<Longrightarrow>
    ins_stmt new (For target iter body orelse) (For target iter body' orelse)"
| ins_For_orelse: "ins_stmts new orelse orelse' \<Longrightarrow>
    ins_stmt new (For target iter body orelse) (For target iter body orelse')"
| ins_While_body: "ins_stmts new body body' \<Longrightarrow>
    ins_stmt new (While test body orelse) (While test body' orelse)"
| ins_While_orelse: "ins_stmts new orelse orelse' \<Longrightarrow>
    ins_stmt new (While test body orelse) (While test body orelse')"
| ins_With_body: "ins_stmts new body body' \<Longrightarrow>
    ins_stmt new (With items body) (With items body')"
| ins_Try_body: "ins_stmts new body body' \<Longrightarrow>
    ins_stmt new (Try body handlers orelse finalbody) (Try body' handlers orelse finalbody)"
| ins_Try_handlers: "ins_handlers new handlers handlers' \<Longrightarrow>
    ins_stmt new (Try body handlers orelse finalbody) (Try body handlers' orelse finalbody)"
| ins_Try_orelse: "ins_stmts new orelse orelse' \<Longrightarrow>
    ins_stmt new (Try body handlers orelse finalbody) (Try body handlers orelse' finalbody)"
| ins_Try_finalbody: "ins_stmts new finalbody finalbody' \<Longrightarrow>
    ins_stmt new (Try body handlers orelse finalbody) (Try body handlers orelse finalbody')"
| ins_FunctionDef_body: "ins_stmts new body body' \<Longrightarrow>
    ins_stmt new (FunctionDef name args body decorator_list returns)
                 (FunctionDef name args body' decorator_list returns)"
| ins_AsyncFunctionDef_body: "ins_stmts new body body' \<Longrightarrow>
    ins_stmt new (AsyncFunctionDef name args body decorator_list returns)
                 (AsyncFunctionDef name args body' decorator_list returns)"
| ins_ClassDef_body: "ins_stmts new body body' \<Longrightarrow>
    ins_stmt new (ClassDef name bases keywords body decorator_list)
                 (ClassDef name bases keywords body' decorator_list)"
| ins_handler_body: "ins_stmts new body body' \<Longrightarrow>
    ins_handlers new (ExceptHandler ty name body # hs) (ExceptHandler ty name body' # hs)"
| ins_handler_later: "ins_handlers new hs hs' \<Longrightarrow> ins_handlers new (h # hs) (h # hs')"

fun elif_chain :: "(expr \<times> stmt list) list \<Rightarrow> stmt list \<Rightarrow> stmt list" where
  "elif_chain [] final_else = final_else"
| "elif_chain ((test, body) # branches) final_else = [IfStmt test body (elif_chain branches final_else)]"

definition cost_orelse :: "stmt list \<Rightarrow> nat \<Rightarrow> nat" where
  "cost_orelse ss d = cost_orelse_ifs ss d + cost_orelse_rest ss d"

section \<open>AST utilities (cq/utils/ast_tools.py)\<close>

text \<open>
  \<open>ast.parse\<close> is a library function: the parameter \<open>parse\<close> gives the tree of a source, or
  \<open>None\<close> where \<open>ast.parse\<close> raises \<open>SyntaxError\<close>.
\<close>


definition safe_parse :: "(string \<Rightarrow> py_module option) \<Rightarrow> string \<Rightarrow> py_module option \<times> bool" where
  "safe_parse parse source = (case parse source of Some tree \<Rightarrow> (Some tree, True) | None \<Rightarrow> (None, False))"

text \<open>
  \<open>ast.walk\<close> yields the nodes of a tree breadth first: it takes the first node of a queue
  and appends the node's children.  \<open>iter_imports\<close> and \<open>count_annotation_coverage\<close> read
  statements only, and a statement occurs only below a statement or an exception handler,
  so the walk is modelled over these two kinds of nodes; leaving the other nodes out of the
  queue does not change the order in which the statements are reached.
\<close>


datatype walk_node = StmtNode stmt | HandlerNode handler

fun child_nodes :: "walk_node \<Rightarrow> walk_node list" where
  "child_nodes (StmtNode (FunctionDef name args body decorator_list returns)) = map StmtNode body"
| "child_nodes (StmtNode (AsyncFunctionDef name args body decorator_list returns)) = map StmtNode body"
| "child_nodes (StmtNode (ClassDef name bases keywords body decorator_list)) = map StmtNode body"
| "child_nodes (StmtNode (For target iter body orelse)) = map StmtNode body @ map StmtNode orelse"
| "child_nodes (StmtNode (While test body orelse)) = map StmtNode body @ map StmtNode orelse"
| "child_nodes (StmtNode (IfStmt test body orelse)) = map StmtNode body @ map StmtNode orelse"
| "child_nodes (StmtNode (With items body)) = map StmtNode body"
| "child_nodes (StmtNode (Try body handlers orelse finalbody)) =
     map StmtNode body @ map HandlerNode handlers @ map StmtNode orelse @ map StmtNode finalbody"
| "child_nodes (StmtNode (Return v)) = []"
| "child_nodes (StmtNode (Assign targets v)) = []"
| "child_nodes (StmtNode (Import names)) = []"
| "child_nodes (StmtNode (ImportFrom modname names level)) = []"
| "child_nodes (StmtNode (Expr v)) = []"
| "child_nodes (StmtNode Pass) = []"
| "child_nodes (HandlerNode (ExceptHandler ty name body)) = map StmtNode body"

text \<open>The measure under which the queue of the walk shrinks.\<close>


fun node_size :: "walk_node \<Rightarrow> nat" where
  "node_size (StmtNode s) = Suc (size s)"
| "node_size (HandlerNode h) = Suc (size h)"

lemma sum_size_stmts: "sum_list (map node_size (map StmtNode ss)) = size_list size ss"
  by (induction ss) auto

lemma sum_size_handlers: "sum_list (map node_size (map HandlerNode hs)) = size_list size hs"
  by (induction hs) auto

lemma child_nodes_smaller: "sum_list (map node_size (child_nodes n)) < node_size n"
proof (cases n)
  case (StmtNode s)
  show ?thesis
    by (cases s) (simp_all add: StmtNode sum_size_stmts sum_size_handlers del: map_map)
next
  case (HandlerNode h)
  show ?thesis by (cases h) (simp add: HandlerNode sum_size_stmts del: map_map)
qed

function walk :: "walk_node list \<Rightarrow> walk_node list" where
  "walk [] = []"
| "walk (n # todo) = n # walk (todo @ child_nodes n)"
  by pat_completeness auto
termination
  by (relation "measure (\<lambda>todo. sum_list (map node_size todo))")
    (use child_nodes_smaller in \<open>auto simp: less_eq_Suc_le\<close>)

text \<open>\<open>name.split(".")[0]\<close>.\<close>


definition first_segment :: "string \<Rightarrow> string" where
  "first_segment s = takeWhile (\<lambda>c. c \<noteq> CHR ''.'') s"

fun import_pairs :: "walk_node \<Rightarrow> (string \<times> string) list" where
  "import_pairs (StmtNode (Import names)) = map (\<lambda>(name, asname). (name, first_segment name)) names"
| "import_pairs (StmtNode (ImportFrom modname names level)) =
     (let module_name = str_or modname []
      in [(module_name, if module_name \<noteq> [] then first_segment module_name else [])])"
| "import_pairs n = []"

definition iter_imports :: "py_module \<Rightarrow> (string \<times> string) list" where
  "iter_imports tree = (case tree of Module body \<Rightarrow> concat (map import_pairs (walk (map StmtNode body))))"

text \<open>
  \<open>NormalizingTransformer\<close>.  \<open>visit_Name\<close>, \<open>visit_Attribute\<close>, \<open>visit_Constant\<close>,
  \<open>visit_FunctionDef\<close>, \<open>visit_AsyncFunctionDef\<close>, \<open>visit_ClassDef\<close> and \<open>visit_arg\<close> are the
  methods of the class; every other node goes through \<open>generic_visit\<close>, which transforms the
  children and keeps the node.  \<open>visit_arg\<close> replaces the name and returns the node without
  visiting its annotation.
\<close>

primrec norm_expr :: "string \<Rightarrow> expr \<Rightarrow> expr" where
  "norm_expr ph (BoolOp op vals) = BoolOp op (map (norm_expr ph) vals)"
| "norm_expr ph (BinOp l op r) = BinOp (norm_expr ph l) op (norm_expr ph r)"
| "norm_expr ph (UnaryOp op e) = UnaryOp op (norm_expr ph e)"
| "norm_expr ph (Compare l ops cs) = Compare (norm_expr ph l) ops (map (norm_expr ph) cs)"
| "norm_expr ph (Call f args ks) =
     Call (norm_expr ph f) (map (norm_expr ph) args) (map (map_prod id (norm_expr ph)) ks)"
| "norm_expr ph (Constant c) = Constant (CStr ''CONST'')"
| "norm_expr ph (Attribute e a ctx) = Attribute (norm_expr ph e) ph ctx"
| "norm_expr ph (Name n ctx) = Name ph ctx"

fun norm_arg :: "string \<Rightarrow> arg \<Rightarrow> arg" where
  "norm_arg ph (Arg name annotation) = Arg ph annotation"

fun norm_arguments :: "string \<Rightarrow> arguments \<Rightarrow> arguments" where
  "norm_arguments ph (Arguments posonlyargs args vararg kwonlyargs kw_defaults kwarg defaults) =
     Arguments (map (norm_arg ph) posonlyargs) (map (norm_arg ph) args) (map_option (norm_arg ph) vararg)
       (map (norm_arg ph) kwonlyargs) (map (map_option (norm_expr ph)) kw_defaults)
       (map_option (norm_arg ph) kwarg) (map (norm_expr ph) defaults)"

primrec norm_stmt :: "string \<Rightarrow> stmt \<Rightarrow> stmt"
  and norm_handler :: "string \<Rightarrow> handler \<Rightarrow> handler" where
  "norm_stmt ph (FunctionDef name args body decorator_list returns) =
     FunctionDef ph (norm_arguments ph args) (map (norm_stmt ph) body)
       (map (norm_expr ph) decorator_list) (map_option (norm_expr ph) returns)"
| "norm_stmt ph (AsyncFunctionDef name args body decorator_list returns) =
     AsyncFunctionDef ph (norm_arguments ph args) (map (norm_stmt ph) body)
       (map (norm_expr ph) decorator_list) (map_option (norm_expr ph) returns)"
| "norm_stmt ph (ClassDef name bases keywords body decorator_list) =
     ClassDef ph (map (norm_expr ph) bases) (map (map_prod id (norm_expr ph)) keywords)
       (map (norm_stmt ph) body) (map (norm_expr ph) decorator_list)"
| "norm_stmt ph (Return v) = Return (map_option (norm_expr ph) v)"
| "norm_stmt ph (Assign targets v) = Assign (map (norm_expr ph) targets) (norm_expr ph v)"
| "norm_stmt ph (For target iter body orelse) =
     For (norm_expr ph target) (norm_expr ph iter) (map (norm_stmt ph) body) (map (norm_stmt ph) orelse)"
| "norm_stmt ph (While test body orelse) =
     While (norm_expr ph test) (map (norm_stmt ph) body) (map (norm_stmt ph) orelse)"
| "norm_stmt ph (IfStmt test body orelse) =
     IfStmt (norm_expr ph test) (map (norm_stmt ph) body) (map (norm_stmt ph) orelse)"
| "norm_stmt ph (With items body) =
     With (map (map_prod (norm_expr ph) (map_option (norm_expr ph))) items) (map (norm_stmt ph) body)"
| "norm_stmt ph (Try body handlers orelse finalbody) =
     Try (map (norm_stmt ph) body) (map (norm_handler ph) handlers) (map (norm_stmt ph) orelse)
       (map (norm_stmt ph) finalbody)"
| "norm_stmt ph (Import names) = Import names"
| "norm_stmt ph (ImportFrom modname names level) = ImportFrom modname names level"
| "norm_stmt ph (Expr v) = Expr (norm_expr ph v)"
| "norm_stmt ph Pass = Pass"
| "norm_handler ph (ExceptHandler ty name body) =
     ExceptHandler (map_option (norm_expr ph) ty) name (map (norm_stmt ph) body)"

definition NormalizingTransformer :: "string \<Rightarrow> py_module \<Rightarrow> py_module" where
  "NormalizingTransformer identifier_placeholder tree =
     (case tree of Module body \<Rightarrow> Module (map (norm_stmt identifier_placeholder) body))"

section \<open>Architecture conformance (cq/analyzers/architecture.py)\<close>


record ArchConfig =
  arch_layers :: "string list"
  arch_mapping :: "(string \<times> string) list"
  allowed_edges :: "string list list"

record ArchitectureViolation =
  v_file :: string
  from_layer :: string
  to_layer :: string
  import_name :: string

text \<open>
  \<open>sorted(config.mapping.items(), key=lambda kv: len(kv[0]), reverse=True)\<close>: a stable sort,
  longest prefix first.
\<close>


definition sorted_prefixes :: "ArchConfig \<Rightarrow> (string \<times> string) list" where
  "sorted_prefixes config = sort_key (\<lambda>kv. - int (length (fst kv))) (arch_mapping config)"

fun first_layer :: "(string \<times> string) list \<Rightarrow> string \<Rightarrow> string option" where
  "first_layer [] normalized = None"
| "first_layer ((prefix, layer) # rest) normalized =
     (if starts_with normalized prefix then Some layer else first_layer rest normalized)"

definition str_replace_char :: "char \<Rightarrow> char \<Rightarrow> string \<Rightarrow> string" where
  "str_replace_char old new s = map (\<lambda>c. if c = old then new else c) s"

definition layer_for_path :: "ArchConfig \<Rightarrow> string \<Rightarrow> string option" where
  "layer_for_path config path =
     first_layer (sorted_prefixes config) (str_replace_char (CHR 0x5C) (CHR ''/'') path)"

definition layer_for_module :: "ArchConfig \<Rightarrow> string \<Rightarrow> string option" where
  "layer_for_module config module_name =
     first_layer (sorted_prefixes config) (str_replace_char (CHR ''.'') (CHR ''/'') module_name)"

text \<open>The loop over the imports of one file, and the loop of \<open>analyze\<close> over the files.\<close>


fun imports_loop ::
  "ArchConfig \<Rightarrow> string \<Rightarrow> string \<Rightarrow> (string \<times> string) list \<Rightarrow> ArchitectureViolation list
     \<Rightarrow> ArchitectureViolation list" where
  "imports_loop config path from_l [] violations = violations"
| "imports_loop config path from_l ((full_name, root_name) # rest) violations =
     (case layer_for_module config (if full_name \<noteq> [] then full_name else root_name) of
        None \<Rightarrow> imports_loop config path from_l rest violations
      | Some target_layer \<Rightarrow>
          if [from_l, target_layer] \<notin> set (allowed_edges config)
          then imports_loop config path from_l rest
                 (violations @ [\<lparr>v_file = path, from_layer = from_l, to_layer = target_layer,
                                 import_name = full_name\<rparr>])
          else imports_loop config path from_l rest violations)"

fun arch_loop ::
  "ArchConfig \<Rightarrow> (string \<Rightarrow> py_module option) \<Rightarrow> (string \<times> string) list
     \<Rightarrow> ArchitectureViolation list \<Rightarrow> ArchitectureViolation list" where
  "arch_loop config parse [] violations = violations"
| "arch_loop config parse ((path, source) # rest) violations =
     (case safe_parse parse source of
        (Some tree, True) \<Rightarrow>
          (case layer_for_path config path of
             None \<Rightarrow> arch_loop config parse rest violations
           | Some from_l \<Rightarrow>
               arch_loop config parse rest
                 (imports_loop config path from_l (iter_imports tree) violations))
      | _ \<Rightarrow> arch_loop config parse rest violations)"

definition arch_analyze ::
  "ArchConfig \<Rightarrow> (string \<Rightarrow> py_module option) \<Rightarrow> (string \<times> string) list
     \<Rightarrow> ArchitectureViolation list" where
  "arch_analyze config parse files = arch_loop config parse files []"

section \<open>Duplication analysis: normalization (cq/analyzers/duplication.py)\<close>

subsection \<open>Normalization\<close>

text \<open>
  \<open>_strip_comments\<close> drops the lines that start with \<open>#\<close> after stripping and cuts every other
  line at its first \<open>#\<close>.  \<open>_normalize\<close> unparses the transformed tree when the source parses
  and \<open>strip_literals\<close> is set, and keeps the text otherwise; \<open>ast.unparse\<close> is a library
  function and a parameter here.  The entries of \<open>config.normalize\<close> are fields of the
  configuration record.
\<close>

definition strip_comments :: "string \<Rightarrow> string" where
  "strip_comments text_in =
     join_with [CHR 0x0A]
       (map (takeWhile (\<lambda>c. c \<noteq> CHR ''#''))
          (filter (\<lambda>line. \<not> starts_with (py_strip line) ''#'') (py_splitlines text_in)))"

record DuplicationConfig =
  dup_k :: int
  dup_w :: int
  strip_literals :: bool
  strip_comments_option :: bool
  identifier_placeholder :: string

definition normalize ::
  "DuplicationConfig \<Rightarrow> (string \<Rightarrow> py_module option) \<Rightarrow> (py_module \<Rightarrow> string) \<Rightarrow> string
     \<Rightarrow> string list \<times> bool" where
  "normalize config parse unparse text_in =
     (case safe_parse parse text_in of (tree, success) \<Rightarrow>
        (let normalized =
               (case tree of
                  Some t \<Rightarrow>
                    if success \<and> strip_literals config
                    then unparse (NormalizingTransformer (identifier_placeholder config) t)
                    else text_in
                | None \<Rightarrow> text_in);
             normalized = (if strip_comments_option config then strip_comments normalized
                           else normalized)
         in (py_split normalized, success)))"

text \<open>
  Renaming: every identifier of a tree (names, attribute names, function, class and
  parameter names, the names of keyword arguments, the names bound by \<open>except\<close> and by
  \<open>import ... as\<close>) is mapped by \<open>rn\<close>, every literal by \<open>lit\<close>; \<open>lit\<close> keeps the kind of a
  literal when \<open>same_kind lit\<close>.
\<close>

primrec rename_expr :: "(string \<Rightarrow> string) \<Rightarrow> (py_const \<Rightarrow> py_const) \<Rightarrow> expr \<Rightarrow> expr" where
  "rename_expr rn lit (BoolOp op vals) = BoolOp op (map (rename_expr rn lit) vals)"
| "rename_expr rn lit (BinOp l op r) = BinOp (rename_expr rn lit l) op (rename_expr rn lit r)"
| "rename_expr rn lit (UnaryOp op e) = UnaryOp op (rename_expr rn lit e)"
| "rename_expr rn lit (Compare l ops cs) =
     Compare (rename_expr rn lit l) ops (map (rename_expr rn lit) cs)"
| "rename_expr rn lit (Call f args ks) =
     Call (rename_expr rn lit f) (map (rename_expr rn lit) args)
       (map (map_prod (map_option rn) (rename_expr rn lit)) ks)"
| "rename_expr rn lit (Constant c) = Constant (lit c)"
| "rename_expr rn lit (Attribute e a ctx) = Attribute (rename_expr rn lit e) (rn a) ctx"
| "rename_expr rn lit (Name n ctx) = Name (rn n) ctx"

fun rename_arg :: "(string \<Rightarrow> string) \<Rightarrow> (py_const \<Rightarrow> py_const) \<Rightarrow> arg \<Rightarrow> arg" where
  "rename_arg rn lit (Arg name annotation) = Arg (rn name) (map_option (rename_expr rn lit) annotation)"

fun rename_arguments :: "(string \<Rightarrow> string) \<Rightarrow> (py_const \<Rightarrow> py_const) \<Rightarrow> arguments \<Rightarrow> arguments" where
  "rename_arguments rn lit (Arguments posonlyargs args vararg kwonlyargs kw_defaults kwarg defaults) =
     Arguments (map (rename_arg rn lit) posonlyargs) (map (rename_arg rn lit) args)
       (map_option (rename_arg rn lit) vararg) (map (rename_arg rn lit) kwonlyargs)
       (map (map_option (rename_expr rn lit)) kw_defaults) (map_option (rename_arg rn lit) kwarg)
       (map (rename_expr rn lit) defaults)"

primrec rename_stmt :: "(string \<Rightarrow> string) \<Rightarrow> (py_const \<Rightarrow> py_const) \<Rightarrow> stmt \<Rightarrow> stmt"
  and rename_handler :: "(string \<Rightarrow> string) \<Rightarrow> (py_const \<Rightarrow> py_const) \<Rightarrow> handler \<Rightarrow> handler" where
  "rename_stmt rn lit (FunctionDef name args body decorator_list returns) =
     FunctionDef (rn name) (rename_arguments rn lit args) (map (rename_stmt rn lit) body)
       (map (rename_expr rn lit) decorator_list) (map_option (rename_expr rn lit) returns)"
| "rename_stmt rn lit (AsyncFunctionDef name args body decorator_list returns) =
     AsyncFunctionDef (rn name) (rename_arguments rn lit args) (map (rename_stmt rn lit) body)
       (map (rename_expr rn lit) decorator_list) (map_option (rename_expr rn lit) returns)"
| "rename_stmt rn lit (ClassDef name bases keywords body decorator_list) =
     ClassDef (rn name) (map (rename_expr rn lit) bases)
       (map (map_prod (map_option rn) (rename_expr rn lit)) keywords)
       (map (rename_stmt rn lit) body) (map (rename_expr rn lit) decorator_list)"
| "rename_stmt rn lit (Return v) = Return (map_option (rename_expr rn lit) v)"
| "rename_stmt rn lit (Assign targets v) =
     Assign (map (rename_expr rn lit) targets) (rename_expr rn lit v)"
| "rename_stmt rn lit (For target iter body orelse) =
     For (rename_expr rn lit target) (rename_expr rn lit iter) (map (rename_stmt rn lit) body)
       (map (rename_stmt rn lit) orelse)"
| "rename_stmt rn lit (While test body orelse) =
     While (rename_expr rn lit test) (map (rename_stmt rn lit) body) (map (rename_stmt rn lit) orelse)"
| "rename_stmt rn lit (IfStmt test body orelse) =
     IfStmt (rename_expr rn lit test) (map (rename_stmt rn lit) body) (map (rename_stmt rn lit) orelse)"
| "rename_stmt rn lit (With items body) =
     With (map (map_prod (rename_expr rn lit) (map_option (rename_expr rn lit))) items)
       (map (rename_stmt rn lit) body)"
| "rename_stmt rn lit (Try body handlers orelse finalbody) =
     Try (map (rename_stmt rn lit) body) (map (rename_handler rn lit) handlers)
       (map (rename_stmt rn lit) orelse) (map (rename_stmt rn lit) finalbody)"
| "rename_stmt rn lit (Import names) = Import (map (map_prod id (map_option rn)) names)"
| "rename_stmt rn lit (ImportFrom modname names level) =
     ImportFrom modname (map (map_prod id (map_option rn)) names) level"
| "rename_stmt rn lit (Expr v) = Expr (rename_expr rn lit v)"
| "rename_stmt rn lit Pass = Pass"
| "rename_handler rn lit (ExceptHandler ty name body) =
     ExceptHandler (map_option (rename_expr rn lit) ty) (map_option rn name)
       (map (rename_stmt rn lit) body)"

definition rename_module :: "(string \<Rightarrow> string) \<Rightarrow> (py_const \<Rightarrow> py_const) \<Rightarrow> py_module \<Rightarrow> py_module" where
  "rename_module rn lit tree = (case tree of Module body \<Rightarrow> Module (map (rename_stmt rn lit) body))"

fun const_kind :: "py_const \<Rightarrow> nat" where
  "const_kind CNone = 0"
| "const_kind (CBool b) = 1"
| "const_kind (CNum n) = 2"
| "const_kind (CStr s) = 3"
| "const_kind CEllipsis = 4"

definition same_kind :: "(py_const \<Rightarrow> py_const) \<Rightarrow> bool" where
  "same_kind lit = (\<forall>c. const_kind (lit c) = const_kind c)"

text \<open>
  A module with an annotated parameter, a renaming of its identifiers and a change of its
  literals, used to evaluate the transformer:
  \<^verbatim>\<open>class A: pass\<close> followed by \<^verbatim>\<open>def f(x: A): return 1\<close>.
\<close>

definition annotated_def_module :: py_module where
  "annotated_def_module =
     Module [ClassDef ''A'' [] [] [Pass] [],
             FunctionDef ''f'' (Arguments [] [Arg ''x'' (Some (Name ''A'' Load))] None [] [] None [])
               [Return (Some (Constant (CNum 1)))] [] None]"

definition rename_A_f_x :: "string \<Rightarrow> string" where
  "rename_A_f_x s = (if s = ''A'' then ''B'' else if s = ''f'' then ''g'' else if s = ''x'' then ''y'' else s)"

definition change_numbers :: "py_const \<Rightarrow> py_const" where
  "change_numbers c = (case c of CNum n \<Rightarrow> CNum (n + 1) | _ \<Rightarrow> c)"

section \<open>Dictionaries in insertion order\<close>

text \<open>
  A dictionary the code iterates over is the list of its items in insertion order;
  \<open>d[k] = v\<close> replaces the value of an existing key in place and appends a new key.
\<close>

fun dict_set :: "('k \<times> 'v) list \<Rightarrow> 'k \<Rightarrow> 'v \<Rightarrow> ('k \<times> 'v) list" where
  "dict_set [] k v = [(k, v)]"
| "dict_set ((k', v') # d) k v = (if k' = k then (k, v) # d else (k', v') # dict_set d k v)"

section \<open>Paths (pathlib) and file system helpers (cq/utils/fs.py)\<close>

text \<open>
  A \<open>pathlib\<close> path (POSIX flavour) is its anchor, \<open>/\<close> or none, and its parts.
  \<open>Path(s)\<close> splits a string at the slashes and drops empty parts and single dots,
  \<open>str(p)\<close> joins the parts again, \<open>p / other\<close> appends the parts of a relative \<open>other\<close> and
  is \<open>other\<close> when that is absolute, and \<open>p.relative_to(other)\<close> raises \<open>ValueError\<close> unless
  \<open>other\<close> has the anchor of \<open>p\<close> and its parts are the first parts of \<open>p\<close>.
  \<open>iter_python_files\<close> yields resolved paths: absolute paths whose parts are file names
  (\<open>resolved_path\<close>).
\<close>

record pure_path =
  anchored :: bool
  parts :: "string list"

fun split_on :: "char \<Rightarrow> string \<Rightarrow> string list" where
  "split_on sep [] = [[]]"
| "split_on sep (c # cs) =
     (if c = sep then [] # split_on sep cs
      else (case split_on sep cs of [] \<Rightarrow> [[c]] | w # ws \<Rightarrow> (c # w) # ws))"

definition path_of_str :: "string \<Rightarrow> pure_path" where
  "path_of_str s =
     \<lparr>anchored = starts_with s ''/'',
      parts = filter (\<lambda>p. p \<noteq> [] \<and> p \<noteq> ''.'') (split_on (CHR ''/'') s)\<rparr>"

definition path_str :: "pure_path \<Rightarrow> string" where
  "path_str p =
     (if anchored p then ''/'' @ join_with ''/'' (parts p)
      else if parts p = [] then ''.'' else join_with ''/'' (parts p))"

definition path_join :: "pure_path \<Rightarrow> pure_path \<Rightarrow> pure_path" where
  "path_join p other = (if anchored other then other else p\<lparr>parts := parts p @ parts other\<rparr>)"

definition relative_to :: "pure_path \<Rightarrow> pure_path \<Rightarrow> py_error + pure_path" where
  "relative_to p other =
     (if anchored p = anchored other \<and> starts_with (parts p) (parts other)
      then Inr \<lparr>anchored = False, parts = drop (length (parts other)) (parts p)\<rparr>
      else Inl ValueError)"

definition valid_name :: "string \<Rightarrow> bool" where
  "valid_name x = (x \<noteq> [] \<and> CHR ''/'' \<notin> set x)"

definition resolved_path :: "pure_path \<Rightarrow> bool" where
  "resolved_path p = (anchored p \<and> list_all valid_name (parts p))"

text \<open>\<open>str.lower\<close>, \<open>str.upper\<close> and \<open>hint in text\<close> on ASCII strings; \<open>detect_role\<close> and \<open>read_text\<close>.\<close>

definition py_lower :: "string \<Rightarrow> string" where
  "py_lower s = map (\<lambda>c. if CHR ''A'' \<le> c \<and> c \<le> CHR ''Z'' then char_of (of_char c + (32::nat)) else c) s"

definition py_upper :: "string \<Rightarrow> string" where
  "py_upper s = map (\<lambda>c. if CHR ''a'' \<le> c \<and> c \<le> CHR ''z'' then char_of (of_char c - (32::nat)) else c) s"

fun str_contains :: "string \<Rightarrow> string \<Rightarrow> bool" where
  "str_contains [] hint = (hint = [])"
| "str_contains (c # cs) hint = (starts_with (c # cs) hint \<or> str_contains cs hint)"

definition ROLE_HINTS :: "(string \<times> string list) list" where
  "ROLE_HINTS =
     [(''test'', [''tests'', ''test_'']),
      (''config'', [''config'', ''settings'', ''cfg'', ''ini'', ''yml'', ''yaml'']),
      (''vendor'', [''vendor'', ''third_party'', ''site-packages'']),
      (''generated'', [''build'', ''dist''])]"

fun role_loop :: "(string \<times> string list) list \<Rightarrow> string \<Rightarrow> string" where
  "role_loop [] lower = ''default''"
| "role_loop ((role, hints) # rest) lower =
     (if list_ex (str_contains lower) hints then role else role_loop rest lower)"

definition detect_role :: "pure_path \<Rightarrow> string" where
  "detect_role p = role_loop ROLE_HINTS (py_lower (path_str p))"

definition read_text :: "string \<Rightarrow> string \<times> int" where
  "read_text file_text = (file_text, int (length (py_splitlines file_text)))"

section \<open>Annotation coverage (cq/utils/ast_tools.py)\<close>

fun arg_annotated :: "arg \<Rightarrow> nat" where
  "arg_annotated (Arg name annotation) = (if annotation \<noteq> None then 1 else 0)"

fun arguments_coverage :: "arguments \<Rightarrow> nat \<times> nat" where
  "arguments_coverage (Arguments posonlyargs args vararg kwonlyargs kw_defaults kwarg defaults) =
     (sum_list (map arg_annotated (args @ kwonlyargs))
        + (case vararg of None \<Rightarrow> 0 | Some a \<Rightarrow> arg_annotated a)
        + (case kwarg of None \<Rightarrow> 0 | Some a \<Rightarrow> arg_annotated a),
      length (args @ kwonlyargs) + (if vararg \<noteq> None then 1 else 0) + (if kwarg \<noteq> None then 1 else 0))"

fun node_coverage :: "walk_node \<Rightarrow> nat \<times> nat" where
  "node_coverage (StmtNode (FunctionDef name args body decorator_list returns)) =
     ((if returns \<noteq> None then 1 else 0) + fst (arguments_coverage args),
      1 + snd (arguments_coverage args))"
| "node_coverage (StmtNode (AsyncFunctionDef name args body decorator_list returns)) =
     ((if returns \<noteq> None then 1 else 0) + fst (arguments_coverage args),
      1 + snd (arguments_coverage args))"
| "node_coverage n = (0, 0)"

definition count_annotation_coverage :: "py_module \<Rightarrow> nat \<times> nat" where
  "count_annotation_coverage tree =
     (case tree of Module body \<Rightarrow>
        (let counts = map node_coverage (walk (map StmtNode body))
         in (sum_list (map fst counts), sum_list (map snd counts))))"


section \<open>Duplication analysis: the analyzer\<close>

text \<open>
  \<open>DuplicationAnalyzer.analyze\<close>: the normalized tokens and the parse flag of every source,
  the fingerprints of every token list, and the ratios.
\<close>

record DuplicationResult =
  d_fingerprints :: "(string \<times> nat list) list"
  d_ratios :: "string \<rightharpoonup> real"
  d_parser_success :: "(string \<times> bool) list"

fun normalize_loop ::
  "DuplicationConfig \<Rightarrow> (string \<Rightarrow> py_module option) \<Rightarrow> (py_module \<Rightarrow> string)
     \<Rightarrow> (string \<times> string) list \<Rightarrow> (string \<times> string list) list \<times> (string \<times> bool) list
     \<Rightarrow> (string \<times> string list) list \<times> (string \<times> bool) list" where
  "normalize_loop config parse unparse [] acc = acc"
| "normalize_loop config parse unparse ((path, text_in) # rest) (normalized, parser_success) =
     (case normalize config parse unparse text_in of (norm_tokens, success) \<Rightarrow>
        normalize_loop config parse unparse rest
          (dict_set normalized path norm_tokens, dict_set parser_success path success))"

fun fingerprints_loop ::
  "DuplicationConfig \<Rightarrow> (string \<Rightarrow> string) \<Rightarrow> (string \<times> string list) list
     \<Rightarrow> (string \<times> nat list) list \<Rightarrow> py_error + (string \<times> nat list) list" where
  "fingerprints_loop config md5 [] fps = Inr fps"
| "fingerprints_loop config md5 ((path, tokens) # rest) fps =
     (case fingerprints md5 (dup_k config) (dup_w config) tokens of
        Inl e \<Rightarrow> Inl e
      | Inr f \<Rightarrow> fingerprints_loop config md5 rest (dict_set fps path f))"

definition dup_analyze ::
  "DuplicationConfig \<Rightarrow> (string \<Rightarrow> string) \<Rightarrow> (string \<Rightarrow> py_module option) \<Rightarrow> (py_module \<Rightarrow> string)
     \<Rightarrow> (string \<times> string) list \<Rightarrow> py_error + DuplicationResult" where
  "dup_analyze config md5 parse unparse sources =
     (case normalize_loop config parse unparse sources ([], []) of (normalized, parser_success) \<Rightarrow>
        (case fingerprints_loop config md5 normalized [] of
           Inl e \<Rightarrow> Inl e
         | Inr fps \<Rightarrow>
             Inr \<lparr>d_fingerprints = fps, d_ratios = compute_ratios fps,
                  d_parser_success = parser_success\<rparr>))"

section \<open>Cognitive complexity: the analyzer\<close>

text \<open>\<open>ComplexityAnalyzer.analyze\<close>: the loop over the sources and the score curve.\<close>

record ComplexityScale =
  target_per_loc :: real
  hard_cap :: int

record ComplexityResult =
  c_scores :: "string \<rightharpoonup> real"
  c_raw :: "string \<rightharpoonup> nat"
  c_per_loc :: "string \<rightharpoonup> real"

definition complexity_score_of :: "ComplexityScale \<Rightarrow> nat \<Rightarrow> real \<Rightarrow> real" where
  "complexity_score_of scale raw per =
     (if int raw \<ge> hard_cap scale then 0
      else (let ratio = min 1 (per / max (target_per_loc scale) (1 / 1000000))
            in max 0 (100 * (1 - ratio))))"

fun complexity_loop ::
  "ComplexityScale \<Rightarrow> (string \<Rightarrow> py_module option) \<Rightarrow> (string \<times> int) list
     \<Rightarrow> (string \<times> string) list \<Rightarrow> ComplexityResult \<Rightarrow> ComplexityResult" where
  "complexity_loop scale parse loc_map [] res = res"
| "complexity_loop scale parse loc_map ((path, source) # rest) res =
     (case safe_parse parse source of
        (Some tree, True) \<Rightarrow>
          (let raw = compute tree;
               loc = max 1 (dict_get (map_of loc_map) path 1);
               per = real raw / real_of_int loc
           in complexity_loop scale parse loc_map rest
                \<lparr>c_scores = (c_scores res)(path \<mapsto> complexity_score_of scale raw per),
                 c_raw = (c_raw res)(path \<mapsto> raw),
                 c_per_loc = (c_per_loc res)(path \<mapsto> per)\<rparr>)
      | _ \<Rightarrow>
          complexity_loop scale parse loc_map rest
            \<lparr>c_scores = (c_scores res)(path \<mapsto> 100),
             c_raw = (c_raw res)(path \<mapsto> 0),
             c_per_loc = (c_per_loc res)(path \<mapsto> 0)\<rparr>)"

definition complexity_analyze ::
  "ComplexityScale \<Rightarrow> (string \<Rightarrow> py_module option) \<Rightarrow> (string \<times> string) list
     \<Rightarrow> (string \<times> int) list \<Rightarrow> ComplexityResult" where
  "complexity_analyze scale parse sources loc_map =
     complexity_loop scale parse loc_map sources
       \<lparr>c_scores = Map.empty, c_raw = Map.empty, c_per_loc = Map.empty\<rparr>"

section \<open>Lint analysis (cq/analyzers/lint.py)\<close>

text \<open>
  The messages of pylint are the records \<open>json.loads\<close> returns for its standard output;
  \<open>json.loads\<close> is a parameter, \<open>None\<close> where it raises \<open>JSONDecodeError\<close>.  Of a message the
  analyzer reads \<open>path\<close>, \<open>symbol\<close> and \<open>type\<close>.
\<close>

record lint_message =
  m_path :: string
  m_symbol :: "string option"
  m_type :: "string option"

record LintResult =
  l_counts :: "(string \<times> (string \<times> nat) list) list"
  l_weighted_scores :: "(string \<times> real) list"
  l_degraded :: bool
  l_missing_reason :: "string option"

definition default_counts :: "(string \<times> nat) list" where
  "default_counts = [(''C'', 0), (''W'', 0), (''R'', 0), (''E'', 0)]"

definition message_category :: "lint_message \<Rightarrow> string" where
  "message_category message =
     (let msg_id = str_or (m_symbol message) []
      in if msg_id \<noteq> [] then py_upper (take 1 msg_id)
         else take 1 (py_upper (case m_type message of None \<Rightarrow> [] | Some t \<Rightarrow> t)))"

fun messages_loop ::
  "lint_message list \<Rightarrow> (string \<times> (string \<times> nat) list) list
     \<Rightarrow> (string \<times> (string \<times> nat) list) list" where
  "messages_loop [] counts = counts"
| "messages_loop (message # rest) counts =
     (let path = m_path message;
          category = message_category message;
          cat_counts = dict_get (map_of counts) path default_counts;
          cat_counts = (if category \<notin> fst ` set cat_counts then dict_set cat_counts category 0
                        else cat_counts);
          cat_counts = dict_set cat_counts category (dict_get (map_of cat_counts) category 0 + 1)
      in messages_loop rest (dict_set counts path cat_counts))"

definition lint_penalty :: "(string \<times> real) list \<Rightarrow> (string \<times> nat) list \<Rightarrow> real" where
  "lint_penalty weights cat_counts =
     foldl (\<lambda>penalty (cat, count). penalty + dict_get (map_of weights) cat 0 * real count) 0 cat_counts"

definition lint_degraded :: "string \<Rightarrow> LintResult" where
  "lint_degraded reason =
     \<lparr>l_counts = [], l_weighted_scores = [], l_degraded = True, l_missing_reason = Some reason\<rparr>"

definition lint_analyze ::
  "(string \<times> real) list \<Rightarrow> (string \<Rightarrow> lint_message list option) \<Rightarrow> proc_result \<Rightarrow> LintResult" where
  "lint_analyze weights json_loads completed =
     (case completed of
        Unavailable exc \<Rightarrow> lint_degraded (''pylint unavailable: '' @ exc)
      | Completed returncode stdout stderr \<Rightarrow>
          if returncode \<notin> {0, 2, 4, 8, 16, 32}
          then lint_degraded (str_or (Some (py_strip stderr)) ''pylint run failed'')
          else
            (case json_loads (if stdout = [] then ''[]'' else stdout) of
               None \<Rightarrow> lint_degraded ''pylint produced invalid JSON''
             | Some messages \<Rightarrow>
                 (let counts = messages_loop messages []
                  in \<lparr>l_counts = counts,
                      l_weighted_scores =
                        map (\<lambda>(path, cat_counts). (path, max 0 (100 - lint_penalty weights cat_counts)))
                          counts,
                      l_degraded = False, l_missing_reason = None\<rparr>)))"


section \<open>The runner (cq/runner.py)\<close>

text \<open>
  The configuration holds the entries the analysis reads.  What comes from outside the
  program is collected in \<open>external\<close>: the library functions (\<open>ast.parse\<close>, \<open>ast.unparse\<close>,
  \<open>hashlib.md5\<close>, \<open>json.loads\<close>, \<open>random.Random\<close>) and what the two child processes did.  The
  files are the resolved paths \<open>iter_python_files\<close> yields, in sorted order, each with its
  text.  The report leaves out \<open>meta\<close> (time stamp and tool names) and the outcome of the
  schema validation, which do not enter any value of the report.
\<close>

record Config =
  cfg_arch :: ArchConfig
  cfg_metric_weights :: "(string \<times> real) list"
  cfg_pylint_categories :: "(string \<times> real) list"
  cfg_roles :: "(string \<times> real) list"
  cfg_duplication :: DuplicationConfig
  cfg_iterations :: int
  cfg_seed :: int
  cfg_complexity_scale :: ComplexityScale
  cfg_typing_scale :: TypingScale

record external =
  ext_parse :: "string \<Rightarrow> py_module option"
  ext_unparse :: "py_module \<Rightarrow> string"
  ext_md5 :: "string \<Rightarrow> string"
  ext_json_loads :: "string \<Rightarrow> lint_message list option"
  ext_Random :: "int \<Rightarrow> nat \<Rightarrow> nat"
  ext_pylint :: proc_result
  ext_mypy :: proc_result

record FileMetrics =
  duplication_ratio :: real
  lint_counts :: "(string \<times> nat) list"
  lint_weighted_score :: real
  typing_errors :: nat
  typing_score :: real
  annotation_coverage :: real
  cognitive_complexity :: nat
  complexity_score :: real
  complexity_per_loc :: real

record FileConfidence =
  conf_duplication :: real
  conf_lint :: real
  conf_typing :: real
  conf_complexity :: real
  conf_overall :: real

record FileReport =
  fr_path :: string
  fr_loc :: int
  fr_role :: string
  fr_metrics :: FileMetrics
  fr_grade :: real
  fr_confidence :: FileConfidence
  missing_reasons :: "string list"

record ProjectSummary =
  sum_duplication :: real
  sum_lint :: real
  sum_typing :: real
  sum_complexity :: real
  sum_grade :: real

record ProjectConfidence =
  per_metric_duplication :: real
  per_metric_lint :: real
  per_metric_typing :: real
  per_metric_complexity :: real
  interval_grade :: "real list"
  degraded :: "string list"

record Report =
  project_summary :: ProjectSummary
  project_confidence :: ProjectConfidence
  architecture_violations :: "ArchitectureViolation list"
  report_files :: "FileReport list"

record scan =
  s_sources :: "(string \<times> string) list"
  s_loc_map :: "(string \<times> int) list"
  s_roles :: "(string \<times> string) list"
  s_coverage_ratio :: "(string \<times> real) list"
  s_parser_success :: "(string \<times> bool) list"

definition coverage_of :: "py_module option \<times> bool \<Rightarrow> real" where
  "coverage_of parsed =
     (case parsed of
        (Some tree, True) \<Rightarrow>
          (case count_annotation_coverage tree of (annotated, total_slots) \<Rightarrow>
             if total_slots \<noteq> 0 then real annotated / real total_slots else 0)
      | _ \<Rightarrow> 0)"

fun scan_loop ::
  "(string \<Rightarrow> py_module option) \<Rightarrow> pure_path \<Rightarrow> (pure_path \<times> string) list \<Rightarrow> scan
     \<Rightarrow> py_error + scan" where
  "scan_loop parse root_path [] sc = Inr sc"
| "scan_loop parse root_path ((p, file_text) # rest) sc =
     (case read_text file_text of (source, loc) \<Rightarrow>
        (case relative_to p root_path of
           Inl e \<Rightarrow> Inl e
         | Inr rel \<Rightarrow>
             (let rel_path = path_str rel
              in scan_loop parse root_path rest
                   \<lparr>s_sources = dict_set (s_sources sc) rel_path source,
                    s_loc_map = dict_set (s_loc_map sc) rel_path loc,
                    s_roles = dict_set (s_roles sc) rel_path (detect_role p),
                    s_coverage_ratio =
                      dict_set (s_coverage_ratio sc) rel_path (coverage_of (safe_parse parse source)),
                    s_parser_success =
                      dict_set (s_parser_success sc) rel_path (snd (safe_parse parse source))\<rparr>)))"

definition weighted_grade :: "FileMetrics \<Rightarrow> (string \<times> real) list \<Rightarrow> real" where
  "weighted_grade metrics weights =
     ((1 - duplication_ratio metrics) * dict_get (map_of weights) ''duplication'' 0 * 100
      + lint_weighted_score metrics * dict_get (map_of weights) ''lint'' 0
      + typing_score metrics * dict_get (map_of weights) ''typing'' 0
      + complexity_score metrics * dict_get (map_of weights) ''complexity'' 0)
     / max (1 / 1000000) (sum_list (map snd weights))"

definition joined_key :: "pure_path \<Rightarrow> string \<Rightarrow> string" where
  "joined_key root_path rel_path = path_str (path_join root_path (path_of_str rel_path))"

definition file_confidence :: "int \<Rightarrow> bool \<Rightarrow> bool \<Rightarrow> bool \<Rightarrow> bool \<Rightarrow> FileConfidence" where
  "file_confidence loc parsed dup_parsed lint_is_degraded typing_is_degraded =
     (let duplication_conf = (if dup_parsed then 1 else 0.5);
          lint_conf = (if lint_is_degraded then 0.4 else 1);
          typing_conf = (if typing_is_degraded then 0.4 else 1);
          complexity_conf = (if parsed then 1 else 0.5);
          base_conf = min 1 (ln (1 + real_of_int loc) / ln (1 + 300));
          base_conf = base_conf * (if parsed then 1 else 0.6)
      in \<lparr>conf_duplication = base_conf * duplication_conf,
          conf_lint = base_conf * lint_conf,
          conf_typing = base_conf * typing_conf,
          conf_complexity = base_conf * complexity_conf,
          conf_overall =
            min 1 (mean [base_conf * duplication_conf, base_conf * lint_conf,
                         base_conf * typing_conf, base_conf * complexity_conf])\<rparr>)"

definition file_metrics ::
  "pure_path \<Rightarrow> scan \<Rightarrow> DuplicationResult \<Rightarrow> ComplexityResult \<Rightarrow> LintResult \<Rightarrow> TypingResult
     \<Rightarrow> string \<Rightarrow> FileMetrics" where
  "file_metrics root_path sc dup cx lint typing rel_path =
     \<lparr>duplication_ratio = dict_get (d_ratios dup) rel_path 0,
      lint_counts = dict_get (map_of (l_counts lint)) (joined_key root_path rel_path) default_counts,
      lint_weighted_score =
        dict_get (map_of (l_weighted_scores lint)) (joined_key root_path rel_path) 100,
      typing_errors = dict_get (t_errors typing) (joined_key root_path rel_path) 0,
      typing_score = dict_get (t_scores typing) (joined_key root_path rel_path) 100,
      annotation_coverage = dict_get (map_of (s_coverage_ratio sc)) rel_path 0,
      cognitive_complexity = dict_get (c_raw cx) rel_path 0,
      complexity_score = dict_get (c_scores cx) rel_path 100,
      complexity_per_loc = dict_get (c_per_loc cx) rel_path 0\<rparr>"

definition file_missing :: "LintResult \<Rightarrow> TypingResult \<Rightarrow> string list" where
  "file_missing lint typing =
     (if l_degraded lint then [str_or (l_missing_reason lint) ''pylint degraded''] else [])
     @ (if t_degraded typing then [str_or (t_missing_reason typing) ''mypy degraded''] else [])"

definition file_report ::
  "Config \<Rightarrow> pure_path \<Rightarrow> scan \<Rightarrow> DuplicationResult \<Rightarrow> ComplexityResult \<Rightarrow> LintResult
     \<Rightarrow> TypingResult \<Rightarrow> string \<Rightarrow> int \<Rightarrow> FileReport" where
  "file_report config root_path sc dup cx lint typing rel_path loc =
     (let metrics = file_metrics root_path sc dup cx lint typing rel_path
      in \<lparr>fr_path = rel_path, fr_loc = loc,
          fr_role = dict_get (map_of (s_roles sc)) rel_path ''default'',
          fr_metrics = metrics,
          fr_grade = weighted_grade metrics (cfg_metric_weights config),
          fr_confidence =
            file_confidence loc (dict_get (map_of (s_parser_success sc)) rel_path False)
              (dict_get (map_of (d_parser_success dup)) rel_path False)
              (l_degraded lint) (t_degraded typing),
          missing_reasons = file_missing lint typing\<rparr>)"

fun report_loop ::
  "Config \<Rightarrow> pure_path \<Rightarrow> scan \<Rightarrow> DuplicationResult \<Rightarrow> ComplexityResult \<Rightarrow> LintResult
     \<Rightarrow> TypingResult \<Rightarrow> (string \<times> int) list \<Rightarrow> FileReport list \<times> string set
     \<Rightarrow> FileReport list \<times> string set" where
  "report_loop config root_path sc dup cx lint typing [] acc = acc"
| "report_loop config root_path sc dup cx lint typing ((rel_path, loc) # rest)
     (files_report, degraded_metrics) =
     report_loop config root_path sc dup cx lint typing rest
       (files_report
          @ [file_report config root_path sc dup cx lint typing rel_path loc],
        degraded_metrics \<union> (if l_degraded lint then {''lint''} else {})
          \<union> (if t_degraded typing then {''typing''} else {}))"

text \<open>
  \<open>_aggregate_project\<close>: the five totals, and the weight total, which the code keeps once
  per key and increases by the same factor for every key.
\<close>

record totals =
  tot_duplication :: real
  tot_lint :: real
  tot_typing :: real
  tot_complexity :: real
  tot_grade :: real
  weight_total :: real

fun aggregate_loop :: "(string \<times> real) list \<Rightarrow> FileReport list \<Rightarrow> totals \<Rightarrow> totals" where
  "aggregate_loop role_weights [] t = t"
| "aggregate_loop role_weights (f # rest) t =
     (let role_weight = dict_get (map_of role_weights) (fr_role f)
                          (dict_get (map_of role_weights) ''default'' 1);
          factor = role_weight * real_of_int (fr_loc f)
      in aggregate_loop role_weights rest
           \<lparr>tot_duplication = tot_duplication t + (1 - duplication_ratio (fr_metrics f)) * factor * 100,
            tot_lint = tot_lint t + lint_weighted_score (fr_metrics f) * factor,
            tot_typing = tot_typing t + typing_score (fr_metrics f) * factor,
            tot_complexity = tot_complexity t + complexity_score (fr_metrics f) * factor,
            tot_grade = tot_grade t + fr_grade f * factor,
            weight_total = weight_total t + factor\<rparr>)"

definition project_value :: "real \<Rightarrow> real \<Rightarrow> real" where
  "project_value tot weight = (if weight \<noteq> 0 then tot / max (1 / 1000000) weight else 0)"

definition aggregate_project :: "FileReport list \<Rightarrow> (string \<times> real) list \<Rightarrow> ProjectSummary" where
  "aggregate_project files_report role_weights =
     (let t = aggregate_loop role_weights files_report
                \<lparr>tot_duplication = 0, tot_lint = 0, tot_typing = 0, tot_complexity = 0,
                 tot_grade = 0, weight_total = 0\<rparr>
      in \<lparr>sum_duplication = project_value (tot_duplication t) (weight_total t),
          sum_lint = project_value (tot_lint t) (weight_total t),
          sum_typing = project_value (tot_typing t) (weight_total t),
          sum_complexity = project_value (tot_complexity t) (weight_total t),
          sum_grade = project_value (tot_grade t) (weight_total t)\<rparr>)"

definition mean_or_zero :: "real list \<Rightarrow> real" where
  "mean_or_zero xs = (if xs \<noteq> [] then mean xs else 0)"

definition run ::
  "Config \<Rightarrow> external \<Rightarrow> pure_path \<Rightarrow> (pure_path \<times> string) list \<Rightarrow> py_error + Report" where
  "run config ext root_path files =
     (case scan_loop (ext_parse ext) root_path files
             \<lparr>s_sources = [], s_loc_map = [], s_roles = [], s_coverage_ratio = [],
              s_parser_success = []\<rparr> of
        Inl e \<Rightarrow> Inl e
      | Inr sc \<Rightarrow>
     (case dup_analyze (cfg_duplication config) (ext_md5 ext) (ext_parse ext) (ext_unparse ext)
             (s_sources sc) of
        Inl e \<Rightarrow> Inl e
      | Inr dup \<Rightarrow>
     (case typing_analyze (cfg_typing_scale config) (ext_mypy ext) (s_loc_map sc)
             (map_of (s_coverage_ratio sc)) of
        Inl e \<Rightarrow> Inl e
      | Inr typing \<Rightarrow>
     (let architecture = arch_analyze (cfg_arch config) (ext_parse ext) (s_sources sc);
          cx = complexity_analyze (cfg_complexity_scale config) (ext_parse ext)
                         (s_sources sc) (s_loc_map sc);
          lint = lint_analyze (cfg_pylint_categories config) (ext_json_loads ext) (ext_pylint ext);
          looped = report_loop config root_path sc dup cx lint typing
                     (s_loc_map sc) ([], {});
          files_report = fst looped;
          degraded_metrics = snd looped
      in case bootstrap_interval (ext_Random ext) (map fr_grade files_report)
                (cfg_iterations config) (cfg_seed config) of
           Inl e \<Rightarrow> Inl e
         | Inr bootstrap \<Rightarrow>
             Inr \<lparr>project_summary = aggregate_project files_report (cfg_roles config),
                  project_confidence =
                    \<lparr>per_metric_duplication =
                       mean_or_zero (map (conf_duplication \<circ> fr_confidence) files_report),
                     per_metric_lint = mean_or_zero (map (conf_lint \<circ> fr_confidence) files_report),
                     per_metric_typing = mean_or_zero (map (conf_typing \<circ> fr_confidence) files_report),
                     per_metric_complexity =
                       mean_or_zero (map (conf_complexity \<circ> fr_confidence) files_report),
                     interval_grade = bootstrap,
                     degraded = sorted_list_of_set degraded_metrics\<rparr>,
                  architecture_violations = architecture,
                  report_files = files_report\<rparr>))))"

text \<open>
  Whether the typing adapter is degraded is decided by what \<open>mypy\<close> did; the result of the
  lint adapter for a configuration and the outside world.
\<close>

definition mypy_degraded :: "external \<Rightarrow> bool" where
  "mypy_degraded ext =
     (case ext_mypy ext of Unavailable exc \<Rightarrow> True
      | Completed returncode out err \<Rightarrow> returncode \<notin> {0, 1})"

definition pylint_result :: "Config \<Rightarrow> external \<Rightarrow> LintResult" where
  "pylint_result config ext =
     lint_analyze (cfg_pylint_categories config) (ext_json_loads ext) (ext_pylint ext)"

section \<open>Results\<close>

subsection \<open>Typing score\<close>

lemma typing_file_score_zero_threshold:
  "zero_score_at_20 sc = 0 \<Longrightarrow> typing_file_score sc err_count loc = Inr 0"
  by (simp add: typing_file_score_def Let_def)

text \<open>
  C1.  With \<open>zero_score_at_20 = 0\<close> (the default) the claim gives a file without typing
  errors the score \<open>max_score_at_0\<close>.  The code compares \<open>density \<ge> zero_score_at\<close>, which
  holds for the density 0 as well: a file of 10 lines without any error is scored 0 under
  the default scale, whose \<open>max_score_at_0\<close> is 100, and so is every file of an analysis
  that the type checker completed without reporting anything.
\<close>

theorem C1_zero_errors_scored_zero:
  "typing_file_score default_typing_scale 0 10 = Inr 0
   \<and> max_score_at_0 default_typing_scale = 100
   \<and> (\<exists>r. typing_analyze default_typing_scale (Completed 0 [] [])
             [(''mod.py'', 10)] Map.empty = Inr r \<and> t_scores r ''mod.py'' = Some 0)"
  by (simp add: typing_file_score_def typing_analyze_def default_typing_scale_def dict_get_def)

subsection \<open>Overlap ratios\<close>

lemma overlaps_loop_sum:
  "overlaps_loop path S items acc =
     acc + sum_list (map (\<lambda>(g, other). card (S \<inter> set other)) (filter (\<lambda>(g, other). g \<noteq> path) items))"
  by (induction items arbitrary: acc) auto

lemma ratios_loop_lookup:
  "distinct (map fst rest) \<Longrightarrow>
   ratios_loop items rest ratio path =
     (case map_of rest path of None \<Rightarrow> ratio path | Some f \<Rightarrow> Some (code_ratio items path f))"
proof (induction rest arbitrary: ratio)
  case Nil
  then show ?case by simp
next
  case (Cons a rest)
  obtain p f where a: "a = (p, f)" by (cases a)
  have d: "distinct (map fst rest)" and n: "p \<notin> fst ` set rest" using Cons.prems a by auto
  have m: "map_of rest p = None" using n by (simp add: map_of_eq_None_iff)
  show ?case
    using Cons.IH[OF d] m
    by (auto simp: a Let_def code_ratio_def distinct_overlap_count_def overlaps_loop_sum split: option.splits)
qed

text \<open>
  C3 (as amended).  For a dictionary of fingerprint lists (its items under distinct paths),
  the ratio of a file is 0 when its list is empty and otherwise
  \<open>min(1, overlaps / max(1, |S_f|))\<close>, where \<open>overlaps\<close> is the sum, over every other file
  \<open>g\<close>, of the number of distinct values that occur both in \<open>S_f\<close> and in \<open>F_g\<close>: the size of
  the set \<open>S_f \<inter> set(F_g)\<close>, not a count with multiplicity.
\<close>

theorem C3_ratio_counts_distinct:
  assumes "distinct (map fst items)" and "(path, fprints) \<in> set items"
  shows "compute_ratios items path =
           Some (if fprints = [] then 0
                 else min 1 (real (distinct_overlap_count items path fprints)
                             / real (max 1 (card (set fprints)))))"
proof -
  have "map_of items path = Some fprints" using assms by simp
  then show ?thesis
    using ratios_loop_lookup[OF assms(1), of items Map.empty path]
    by (simp add: compute_ratios_def code_ratio_def)
qed

text \<open>
  C3 as stated fails: with \<open>F_a = [1, 2]\<close> and \<open>F_b = [1, 1]\<close> the count with multiplicity
  is 2 and the ratio of the specification is 1, while the code counts 1 and stores 1/2.
\<close>

theorem C3_counterexample:
  "compute_ratios [(''a.py'', [1, 2]), (''b.py'', [1, 1])] ''a.py''
     \<noteq> Some (spec_ratio [(''a.py'', [1, 2]), (''b.py'', [1, 1])] ''a.py'' [1, 2])
   \<and> compute_ratios [(''a.py'', [1, 2]), (''b.py'', [1, 1])] ''a.py'' = Some (1 / 2)
   \<and> overlaps_loop ''a.py'' (set [1, 2]) [(''a.py'', [1, 2]), (''b.py'', [1, 1])] 0 = 1
   \<and> spec_overlap_count [(''a.py'', [1, 2]), (''b.py'', [1, 1])] ''a.py'' [1, 2] = 2
   \<and> spec_ratio [(''a.py'', [1, 2]), (''b.py'', [1, 1])] ''a.py'' [1, 2] = 1"
  by (simp add: compute_ratios_def spec_ratio_def spec_overlap_count_def)

theorem C3_ratio_counts_distinct_witness:
  "distinct (map fst [(''a.py'', [1, 2]), (''b.py'', [1, 1 :: nat])])
   \<and> (''a.py'', [1, 2]) \<in> set [(''a.py'', [1, 2]), (''b.py'', [1, 1 :: nat])]
   \<and> compute_ratios [(''a.py'', [1, 2]), (''b.py'', [1, 1])] ''a.py'' = Some (1 / 2)"
  using C3_ratio_counts_distinct[of "[(''a.py'', [1, 2]), (''b.py'', [1, 1])]" "''a.py''" "[1, 2]"]
  by (simp add: distinct_overlap_count_def)

subsection \<open>Winnowing\<close>

lemma fst_py_min_from: "fst (py_min_from best xs) = fold min (map fst xs) (fst best)"
  by (induction xs arbitrary: best) (auto simp: key_less_def min_def)

lemma py_min_nonempty:
  "window \<noteq> [] \<Longrightarrow> \<exists>m. py_min window = Inr m \<and> fst m = window_min_hash window"
  by (cases window) (auto simp: py_min_def window_min_hash_def fst_py_min_from)

lemma window_min_hash_cong:
  "map fst u = map fst v \<Longrightarrow> window_min_hash u = window_min_hash v"
  by (cases u; cases v) (auto simp: window_min_hash_def)

lemma lastn_append: "lastn w (lastn w xs @ ys) = lastn w (xs @ ys)"
  by (cases "length xs \<le> w") (auto simp: lastn_def ac_simps)

lemma lastn_snoc: "length window \<le> w \<Longrightarrow>
  (if length (window @ [hp]) > w then tl (window @ [hp]) else window @ [hp]) = lastn w (window @ [hp])"
proof (cases "length (window @ [hp]) > w")
  case True
  assume "length window \<le> w"
  with True have "length window = w" by simp
  then have "length (window @ [hp]) - w = Suc 0" by simp
  then have "lastn w (window @ [hp]) = drop (Suc 0) (window @ [hp])"
    unfolding lastn_def by (simp only:)
  also have "\<dots> = tl (window @ [hp])" by (simp only: drop_Suc drop_0)
  finally have "lastn w (window @ [hp]) = tl (window @ [hp])" .
  with True show ?thesis by simp
next
  case False
  then show ?thesis by (simp add: lastn_def)
qed

lemma lastn_nonempty: "1 \<le> w \<Longrightarrow> xs \<noteq> [] \<Longrightarrow> lastn w xs \<noteq> []"
  by (cases xs) (auto simp: lastn_def)

lemma length_lastn: "length (lastn w xs) \<le> w"
  by (auto simp: lastn_def)

lemma winnow_loop_selects:
  "1 \<le> w \<Longrightarrow> length window \<le> w \<Longrightarrow> (\<And>m. mn = Some m \<Longrightarrow> fst m \<in> set hashes) \<Longrightarrow>
   \<exists>res. winnow_loop w rest window mn hashes = Inr res \<and> set hashes \<subseteq> set res
     \<and> (\<forall>t < length rest. window_min_hash (lastn w (window @ take (Suc t) rest)) \<in> set res)"
proof (induction rest arbitrary: window mn hashes)
  case Nil
  then show ?case by simp
next
  case (Cons hp rest)
  define window2 where "window2 = lastn w (window @ [hp])"
  have w2: "(if length (window @ [hp]) > w then tl (window @ [hp]) else window @ [hp]) = window2"
    unfolding window2_def using Cons.prems(2) by (rule lastn_snoc)
  have ne: "window2 \<noteq> []" unfolding window2_def using Cons.prems(1) by (intro lastn_nonempty) auto
  obtain cm where cm: "py_min window2 = Inr cm" "fst cm = window_min_hash window2"
    using py_min_nonempty[OF ne] by blast
  have len2: "length window2 \<le> w" unfolding window2_def by (rule length_lastn)
  define mn' where "mn' = (if mn \<noteq> Some cm then Some cm else mn)"
  define hashes' where "hashes' = (if mn \<noteq> Some cm then hashes @ [fst cm] else hashes)"
  have step: "winnow_loop w (hp # rest) window mn hashes = winnow_loop w rest window2 mn' hashes'"
    using w2 cm(1) by (simp add: mn'_def hashes'_def Let_def del: length_append append_eq_append_conv2)
  have inv: "\<And>m. mn' = Some m \<Longrightarrow> fst m \<in> set hashes'"
    using Cons.prems(3) by (auto simp: mn'_def hashes'_def split: if_splits)
  have cmin: "fst cm \<in> set hashes'"
    using Cons.prems(3)[of cm] by (auto simp: hashes'_def)
  have sub: "set hashes \<subseteq> set hashes'" by (auto simp: hashes'_def)
  from Cons.IH[OF Cons.prems(1) len2 inv]
  obtain res where res: "winnow_loop w rest window2 mn' hashes' = Inr res" "set hashes' \<subseteq> set res"
    "\<forall>t < length rest. window_min_hash (lastn w (window2 @ take (Suc t) rest)) \<in> set res"
    by blast
  have "window_min_hash (lastn w (window @ take (Suc t) (hp # rest))) \<in> set res"
    if t: "t < length (hp # rest)" for t
  proof (cases t)
    case 0
    then show ?thesis using cmin cm(2) res(2) by (auto simp: window2_def)
  next
    case (Suc t')
    have "lastn w (window @ take (Suc t) (hp # rest)) = lastn w ((window @ [hp]) @ take (Suc t') rest)"
      by (simp add: Suc)
    also have "\<dots> = lastn w (window2 @ take (Suc t') rest)"
      unfolding window2_def by (rule lastn_append[symmetric])
    finally show ?thesis using res(3) t Suc by auto
  qed
  then show ?case using step res sub by auto
qed

lemma kgram_shared:
  assumes "take L (drop i a) = take L (drop j b)" and "d + k \<le> L"
  shows "kgram k a (i + d) = kgram k b (j + d)"
proof -
  have "kgram k xs (n + d) = take k (drop d (take L (drop n xs)))" for xs :: "string list" and n
    using assms(2) by (simp add: kgram_def drop_take min_def add.commute)
  then show ?thesis using assms(1) by simp
qed

lemma lastn_take_map:
  assumes "i + w \<le> n"
  shows "lastn w (take (i + w) (map f [0 ..< n])) = map f [i ..< i + w]"
proof -
  have "take (i + w) (map f [0 ..< n]) = map f [0 ..< i + w]"
    using assms by (simp add: take_map)
  moreover have "lastn w (map f [0 ..< i + w]) = map f [i ..< i + w]"
    by (simp add: lastn_def drop_map)
  ultimately show ?thesis by simp
qed

lemma fingerprints_window:
  assumes k: "1 \<le> ck" and w: "1 \<le> cw" and L: "nat ck + nat cw - 1 \<le> L" and a: "i + L \<le> length a"
  shows "\<exists>fa. fingerprints md5 ck cw a = Inr fa
     \<and> window_min_hash (map (\<lambda>x. (stable_hash md5 (join_space (kgram (nat ck) a x)), x))
                          [i ..< i + nat cw]) \<in> set fa"
proof -
  define kk where "kk = nat ck"
  define ww where "ww = nat cw"
  define n where "n = length a - kk + 1"
  define f where "f = (\<lambda>x. (stable_hash md5 (join_space (kgram kk a x)), x))"
  have kk: "1 \<le> kk" "nat (max 1 ck) = kk" and ww: "1 \<le> ww" "nat (max 1 cw) = ww"
    using k w by (auto simp: kk_def ww_def)
  have len: "\<not> length a < kk" using L a ww by (simp add: kk_def ww_def)
  have fp: "fingerprints md5 ck cw a = winnow_loop ww (map f [0 ..< n]) [] None []"
    using len by (simp add: fingerprints_def kk ww f_def n_def Let_def)
  have iw: "i + ww \<le> n" using L a kk ww by (simp add: n_def kk_def ww_def)
  obtain res where res: "winnow_loop ww (map f [0 ..< n]) [] None [] = Inr res"
    "\<forall>t < length (map f [0 ..< n]). window_min_hash (lastn ww ([] @ take (Suc t) (map f [0 ..< n]))) \<in> set res"
    using winnow_loop_selects[of ww "[]" None "[]" "map f [0 ..< n]"] ww by auto
  have "i + ww - 1 < length (map f [0 ..< n])" using iw ww by simp
  then have "window_min_hash (lastn ww (take (Suc (i + ww - 1)) (map f [0 ..< n]))) \<in> set res"
    using res(2) by (metis append_Nil)
  moreover have "Suc (i + ww - 1) = i + ww" using ww by simp
  ultimately have "window_min_hash (map f [i ..< i + ww]) \<in> set res"
    using lastn_take_map[OF iw, of f] by simp
  then show ?thesis using fp res(1) by (auto simp: f_def kk_def ww_def)
qed

text \<open>
  C5.  For \<open>k \<ge> 1\<close> and \<open>w \<ge> 1\<close>, if the token streams \<open>a\<close> and \<open>b\<close> share a contiguous run
  of \<open>L \<ge> k + w - 1\<close> equal tokens (at offset \<open>i\<close> in \<open>a\<close> and \<open>j\<close> in \<open>b\<close>), then both
  fingerprint lists are produced and some hash value occurs in both.  This holds for
  every digest function.
\<close>

theorem C5_shared_run_common_fingerprint:
  assumes "1 \<le> config_k" and "1 \<le> config_w"
    and "nat config_k + nat config_w - 1 \<le> L"
    and "i + L \<le> length a" and "j + L \<le> length b"
    and "take L (drop i a) = take L (drop j b)"
  shows "\<exists>fa fb h. fingerprints md5 config_k config_w a = Inr fa
           \<and> fingerprints md5 config_k config_w b = Inr fb
           \<and> h \<in> set fa \<and> h \<in> set fb"
proof -
  define H where "H = (\<lambda>ts x. (stable_hash md5 (join_space (kgram (nat config_k) ts x)), x))"
  obtain fa where fa: "fingerprints md5 config_k config_w a = Inr fa"
    "window_min_hash (map (H a) [i ..< i + nat config_w]) \<in> set fa"
    using fingerprints_window[OF assms(1,2,3,4), of md5] by (auto simp: H_def)
  obtain fb where fb: "fingerprints md5 config_k config_w b = Inr fb"
    "window_min_hash (map (H b) [j ..< j + nat config_w]) \<in> set fb"
    using fingerprints_window[OF assms(1,2,3,5), of md5] by (auto simp: H_def)
  have "map fst (map (H a) [i ..< i + nat config_w]) = map fst (map (H b) [j ..< j + nat config_w])"
  proof (rule nth_equalityI)
    show "length (map fst (map (H a) [i ..< i + nat config_w])) = length (map fst (map (H b) [j ..< j + nat config_w]))"
      by simp
  next
    fix d assume "d < length (map fst (map (H a) [i ..< i + nat config_w]))"
    then have d: "d < nat config_w" by simp
    then have "d + nat config_k \<le> L" using assms(3) by simp
    from kgram_shared[OF assms(6) this]
    show "map fst (map (H a) [i ..< i + nat config_w]) ! d = map fst (map (H b) [j ..< j + nat config_w]) ! d"
      using d by (simp add: H_def)
  qed
  then have "window_min_hash (map (H a) [i ..< i + nat config_w]) = window_min_hash (map (H b) [j ..< j + nat config_w])"
    by (rule window_min_hash_cong)
  then show ?thesis using fa fb by metis
qed

theorem C5_shared_run_common_fingerprint_witness:
  "(1::int) \<le> 2 \<and> nat 2 + nat 2 - 1 \<le> (3::nat)
   \<and> 1 + 3 \<le> length [''x'', ''a'', ''b'', ''c''] \<and> 0 + 3 \<le> length [''a'', ''b'', ''c'', ''y'']
   \<and> take 3 (drop 1 [''x'', ''a'', ''b'', ''c'']) = take 3 (drop 0 [''a'', ''b'', ''c'', ''y''])
   \<and> (\<exists>fa fb h. fingerprints (\<lambda>s. s) 2 2 [''x'', ''a'', ''b'', ''c''] = Inr fa
          \<and> fingerprints (\<lambda>s. s) 2 2 [''a'', ''b'', ''c'', ''y''] = Inr fb
          \<and> h \<in> set fa \<and> h \<in> set fb)"
  using C5_shared_run_common_fingerprint[of 2 2 3 1 "[''x'', ''a'', ''b'', ''c'']" 0
      "[''a'', ''b'', ''c'', ''y'']" "\<lambda>s. s"]
  by simp

subsection \<open>Bootstrap interval\<close>

lemma lower_idx_bounds: "1 \<le> n \<Longrightarrow> 0 \<le> lower_idx n \<and> lower_idx n \<le> upper_idx n \<and> upper_idx n \<le> n - 1"
proof -
  assume n: "1 \<le> n"
  define m where "m = real_of_int (n - 1)"
  have m0: "0 \<le> m" using n by (simp add: m_def)
  have a: "py_int (0.05 * m) = \<lfloor>0.05 * m\<rfloor>" using m0 by (simp add: py_int_def)
  have b: "py_int (0.95 * m) = \<lfloor>0.95 * m\<rfloor>" using m0 by (simp add: py_int_def)
  have c: "\<lfloor>0.05 * m\<rfloor> \<le> \<lfloor>0.95 * m\<rfloor>" using m0 by (intro floor_mono) simp
  have d: "0 \<le> \<lfloor>0.05 * m\<rfloor>" using m0 by simp
  have e: "\<lfloor>0.05 * m\<rfloor> \<le> n - 1"
  proof -
    have "0.05 * m \<le> m" using m0 by simp
    then have "\<lfloor>0.05 * m\<rfloor> \<le> \<lfloor>m\<rfloor>" by (rule floor_mono)
    then show ?thesis by (simp add: m_def)
  qed
  show ?thesis
    unfolding lower_idx_def upper_idx_def m_def[symmetric] a b using c d e by simp
qed

lemma length_bootstrap_samples: "length (bootstrap_samples R vals it seed) = nat it"
  by (simp add: bootstrap_samples_def)

text \<open>
  C9.  For a non-empty list of grades: when \<open>iterations \<ge> 1\<close> the two indices satisfy
  \<open>0 \<le> lower_idx \<le> upper_idx \<le> n - 1\<close> with \<open>n = iterations\<close>, the function returns
  \<open>[lo, hi]\<close> with \<open>lo \<le> hi\<close>, and both are among the sampled means; when
  \<open>iterations \<le> 0\<close> no sample is drawn and the index access raises \<open>IndexError\<close>.
\<close>

theorem C9_bootstrap_indices:
  assumes "vals \<noteq> []"
  shows "(1 \<le> iterations \<longrightarrow>
            0 \<le> lower_idx iterations \<and> lower_idx iterations \<le> upper_idx iterations
            \<and> upper_idx iterations \<le> iterations - 1
            \<and> (\<exists>lo hi. bootstrap_interval Random vals iterations seed = Inr [lo, hi]
                  \<and> lo \<le> hi
                  \<and> lo \<in> set (bootstrap_samples Random vals iterations seed)
                  \<and> hi \<in> set (bootstrap_samples Random vals iterations seed)))
         \<and> (iterations \<le> 0 \<longrightarrow> bootstrap_interval Random vals iterations seed = Inl IndexError)"
proof (intro conjI impI)
  assume it: "1 \<le> iterations"
  note b = lower_idx_bounds[OF it]
  show "0 \<le> lower_idx iterations" "lower_idx iterations \<le> upper_idx iterations"
    "upper_idx iterations \<le> iterations - 1" using b by auto
  define samples where "samples = sort (bootstrap_samples Random vals iterations seed)"
  have len: "int (length samples) = iterations"
    using it by (simp add: samples_def length_bootstrap_samples)
  define lo where "lo = samples ! nat (lower_idx iterations)"
  define hi where "hi = samples ! nat (upper_idx iterations)"
  have il: "nat (lower_idx iterations) < length samples" "nat (upper_idx iterations) < length samples"
    using b len by auto
  have "py_index samples (lower_idx iterations) = Inr lo"
    using b len by (auto simp: py_index_def lo_def Let_def)
  moreover have "py_index samples (upper_idx iterations) = Inr hi"
    using b len by (auto simp: py_index_def hi_def Let_def)
  ultimately have r: "bootstrap_interval Random vals iterations seed = Inr [lo, hi]"
    using assms len by (simp add: bootstrap_interval_def samples_def[symmetric] Let_def)
  have s: "sorted samples" by (simp add: samples_def)
  have "lo \<le> hi" unfolding lo_def hi_def
    using s il b by (intro sorted_nth_mono) auto
  moreover have "lo \<in> set samples" "hi \<in> set samples"
    unfolding lo_def hi_def using il by auto
  then have "lo \<in> set (bootstrap_samples Random vals iterations seed)"
     "hi \<in> set (bootstrap_samples Random vals iterations seed)" by (simp_all add: samples_def)
  ultimately show "\<exists>lo hi. bootstrap_interval Random vals iterations seed = Inr [lo, hi]
                  \<and> lo \<le> hi
                  \<and> lo \<in> set (bootstrap_samples Random vals iterations seed)
                  \<and> hi \<in> set (bootstrap_samples Random vals iterations seed)"
    using r by blast
next
  assume "iterations \<le> 0"
  then show "bootstrap_interval Random vals iterations seed = Inl IndexError"
    using assms by (simp add: bootstrap_interval_def bootstrap_samples_def py_index_def Let_def lower_idx_def py_int_def)
qed


theorem C9_bootstrap_indices_witness:
  "[50, 70 :: real] \<noteq> [] \<and> (1::int) \<le> 3
   \<and> lower_idx 3 = 0 \<and> upper_idx 3 = 1
   \<and> bootstrap_interval (\<lambda>seed t. t div 3) [50, 70] 3 1337 = Inr [50, 60]
   \<and> bootstrap_interval (\<lambda>seed t. t div 3) [50, 70] 0 1337 = Inl IndexError"
proof -
  have v: "[50, 70 :: real] \<noteq> []" by simp
  have "bootstrap_interval (\<lambda>seed t. t div 3) [50, 70] 0 1337 = Inl IndexError"
    using C9_bootstrap_indices[OF v, of 0 "\<lambda>seed t. t div 3" 1337] by simp
  moreover have "bootstrap_interval (\<lambda>seed t. t div 3) [50, 70] 3 1337 = Inr [50, 60]"
    by code_simp
  moreover have "lower_idx 3 = 0 \<and> upper_idx 3 = 1" by code_simp
  moreover have "lower_idx 3 \<le> upper_idx 3"
    using C9_bootstrap_indices[OF v, of 3 "\<lambda>seed t. t div 3" 1337] by simp
  ultimately show ?thesis by simp
qed

subsection \<open>Cognitive complexity\<close>

lemma visit_expr_cost:
  "visit_expr e st = bump (cost_expr e) st"
  "generic_visit_expr e st = bump (gcost_expr e) st"
  "visit_exprs es st = bump (cost_exprs es) st"
  "visit_keywords ks st = bump (cost_keywords ks) st"
  by (induction e st and e st and es st and ks st
      rule: visit_expr_generic_visit_expr_visit_exprs_visit_keywords.induct)
    (auto simp: bump_def nat_diff_distrib)

lemma bump_bump [simp]: "bump m (bump n st) = bump (n + m) st"
  by (simp add: bump_def)

lemma bump_0 [simp]: "bump 0 st = st"
  by (simp add: bump_def)

lemma visit_expr_opt_cost: "visit_expr_opt e st = bump (cost_expr_opt e) st"
  by (cases e) (simp_all add: visit_expr_cost)

lemma visit_expr_opts_cost: "visit_expr_opts es st = bump (sum_list (map cost_expr_opt es)) st"
  by (induction es arbitrary: st) (simp_all add: visit_expr_opt_cost)

lemma visit_arg_cost: "visit_arg a st = bump (cost_arg a) st"
  by (cases a) (simp add: visit_expr_opt_cost)

lemma visit_arg_list_cost: "visit_arg_list as st = bump (sum_list (map cost_arg as)) st"
  by (induction as arbitrary: st) (simp_all add: visit_arg_cost)

lemma visit_arg_opt_cost: "visit_arg_opt a st = bump (cost_arg_opt a) st"
  by (cases a) (simp_all add: visit_arg_cost)

lemma visit_arguments_cost: "visit_arguments a st = bump (cost_arguments a) st"
  by (cases a)
    (simp add: visit_arg_list_cost visit_arg_opt_cost visit_expr_opts_cost visit_expr_cost ac_simps)

lemma visit_withitems_cost: "visit_withitems items st = bump (cost_withitems items) st"
  by (induction items arbitrary: st) (auto simp: visit_expr_cost visit_expr_opt_cost ac_simps)

lemma stack_bump [simp]: "stack (bump n st) = stack st"
  by (simp add: bump_def)

lemma length_stack_push [simp]: "length (stack (push st)) = Suc (length (stack st))"
  by (simp add: push_def)

lemma enter_bump: "enter extra st = push (bump (extra + length (stack st)) st)"
  by (simp add: enter_def bump_def push_def)

lemma bump_push [simp]: "bump n (push st) = push (bump n st)"
  by (simp add: bump_def push_def)

lemma leave_push [simp]: "leave (push st) = st"
  by (simp add: leave_def push_def)

lemma visit_stmt_cost:
  "visit_stmt s st = bump (cost_stmt s (length (stack st))) st"
  "generic_visit_stmt s st = bump (gcost_stmt s (length (stack st))) st"
  "visit_stmts ss st = bump (cost_stmts ss (length (stack st))) st"
  "visit_orelse_ifs ss st = bump (cost_orelse_ifs ss (length (stack st))) st"
  "visit_orelse_rest ss st = bump (cost_orelse_rest ss (length (stack st))) st"
  "visit_try_handlers hs st = bump (cost_try_handlers hs (length (stack st))) st"
  "generic_visit_handler h st = bump (gcost_handler h (length (stack st))) st"
  "visit_handlers hs st = bump (cost_handlers hs (length (stack st))) st"
proof (induction s and s and ss and ss and ss and hs and h and hs arbitrary: st and st and st and st and st and st and st and st
    rule: cost_stmt_gcost_stmt_cost_stmts_cost_orelse_ifs_cost_orelse_rest_cost_try_handlers_gcost_handler_cost_handlers.induct)
  case (2 target iter body orelse)
  then show ?case
    by (simp add: enter_bump del: generic_visit_stmt.simps gcost_stmt.simps)
next
  case (3 test body orelse)
  then show ?case
    by (simp add: enter_bump del: generic_visit_stmt.simps gcost_stmt.simps)
next
  case (4 items body)
  then show ?case
    by (simp add: enter_bump del: generic_visit_stmt.simps gcost_stmt.simps)
next
  case (6 v)
  then show ?case
    by (simp add: bump_def del: generic_visit_stmt.simps gcost_stmt.simps)
qed (simp_all add: enter_bump visit_expr_cost visit_expr_opt_cost visit_arguments_cost
       visit_withitems_cost ac_simps)

lemma compute_cost: "compute (Module body) = cost_stmts body 0"
  by (simp add: compute_def visit_stmt_cost bump_def)

lemma cost_orelse_simps [simp]:
  "cost_orelse [] d = 0"
  "cost_orelse (s # ss) d =
     (if is_If s then (1 + d) + gcost_stmt s (Suc d) else cost_stmt s d) + cost_orelse ss d"
  by (simp_all add: cost_orelse_def)

lemma cost_If: "cost_stmt (IfStmt test body orelse) d =
    (1 + d) + gcost_expr test + cost_stmts body (Suc d) + cost_orelse orelse (Suc d)"
  by (simp add: cost_orelse_def)

lemma is_If_cost: "is_If s \<Longrightarrow> 1 \<le> cost_stmt s d"
  by (cases s) simp_all

lemma ins_grows:
  assumes "is_If new"
  shows "ins_stmts new ss ss' \<Longrightarrow>
           (\<forall>d. cost_stmts ss d < cost_stmts ss' d) \<and> (\<forall>d. cost_orelse ss d < cost_orelse ss' d)"
    and "ins_stmt new s s' \<Longrightarrow>
           (\<forall>d. cost_stmt s d < cost_stmt s' d) \<and> (\<forall>d. gcost_stmt s d < gcost_stmt s' d)
           \<and> is_If s' = is_If s"
    and "ins_handlers new hs hs' \<Longrightarrow>
           (\<forall>d. cost_try_handlers hs d < cost_try_handlers hs' d)
           \<and> (\<forall>d. cost_handlers hs d < cost_handlers hs' d)"
proof (induction rule: ins_stmts_ins_stmt_ins_handlers.inducts)
  case (ins_here ss)
  have "0 < cost_stmt new d" for d using is_If_cost[OF assms, of d] by simp
  then show ?case using assms by simp
next
  case (ins_Try_finalbody finalbody finalbody' body handlers orelse)
  then have "finalbody' \<noteq> []" by (auto elim: ins_stmts.cases)
  then show ?case using ins_Try_finalbody by (auto simp: add_less_mono)
qed (auto simp: cost_If add_less_mono add_less_le_mono add_le_less_mono simp del: cost_stmt.simps(1))

lemma elif_chain_cost:
  "length branches \<le> cost_stmts (elif_chain branches final_else) d
   \<and> length branches \<le> cost_orelse (elif_chain branches final_else) d"
proof (induction branches arbitrary: d)
  case Nil
  then show ?case by simp
next
  case (Cons a branches)
  obtain test body where a: "a = (test, body)" by (cases a)
  have 1: "length branches \<le> cost_orelse (elif_chain branches final_else) (Suc d)"
    and 2: "length branches \<le> cost_stmts (elif_chain branches final_else) (Suc d)"
    using Cons.IH[of "Suc d"] by auto
  show ?case using 1 2 by (simp add: a cost_If del: cost_stmt.simps(1))
qed

lemma simple_chain_cost:
  "2 * cost_stmts (elif_chain (replicate n (Name x ctx, [Pass])) []) d = n * (2 * d + n + 1)
   \<and> 2 * cost_orelse (elif_chain (replicate n (Name x ctx, [Pass])) []) d = n * (2 * d + n + 1)"
proof (induction n arbitrary: d)
  case 0
  then show ?case by simp
next
  case (Suc n)
  have 1: "2 * cost_orelse (elif_chain (replicate n (Name x ctx, [Pass])) []) (Suc d) = n * (2 * Suc d + n + 1)"
    and 2: "2 * cost_stmts (elif_chain (replicate n (Name x ctx, [Pass])) []) (Suc d) = n * (2 * Suc d + n + 1)"
    using Suc.IH[of "Suc d"] by auto
  show ?case using 1 2 by (simp add: cost_If algebra_simps del: cost_stmt.simps(1))
qed

text \<open>
  C6.  Inserting an \<open>if\<close> statement into any statement list of a module, at any
  nesting level, strictly increases the raw complexity; a module whose body is an
  \<open>if\<close>/\<open>elif\<close> chain of \<open>n\<close> branches (with any final \<open>else\<close> body) has raw complexity at
  least \<open>n\<close>; and in a chain of \<open>n\<close> branches whose tests are names and whose bodies are
  \<open>pass\<close>, the branch at position \<open>i\<close> adds exactly \<open>i\<close> (one for the construct and \<open>i - 1\<close>
  for the frames around it), so that each \<open>elif\<close> is counted once, with its own frame, and
  the raw complexity is \<open>n (n + 1) / 2\<close>.
\<close>

theorem C6_complexity_monotone:
  "(is_If new \<and> ins_stmts new body body' \<longrightarrow> compute (Module body) < compute (Module body'))
   \<and> length branches \<le> compute (Module (elif_chain branches final_else))
   \<and> 2 * compute (Module (elif_chain (replicate n (Name x ctx, [Pass])) [])) = n * (n + 1)"
  using ins_grows(1)[of new body body'] elif_chain_cost[of branches final_else 0]
    simple_chain_cost[of n x ctx 0]
  by (simp add: compute_cost)

theorem C6_complexity_monotone_witness:
  "is_If (IfStmt (Name ''x'' Load) [Pass] [])
   \<and> ins_stmts (IfStmt (Name ''x'' Load) [Pass] [])
        [While (Name ''y'' Load) [Return None] []]
        [While (Name ''y'' Load) [IfStmt (Name ''x'' Load) [Pass] [], Return None] []]
   \<and> compute (Module [While (Name ''y'' Load) [Return None] []]) = 2
   \<and> compute (Module [While (Name ''y'' Load) [IfStmt (Name ''x'' Load) [Pass] [], Return None] []]) = 4
   \<and> compute (Module (elif_chain [(Name ''a'' Load, [Pass]), (Name ''b'' Load, [Pass]), (Name ''c'' Load, [Pass])] [])) = 6"
proof -
  have i: "ins_stmts (IfStmt (Name ''x'' Load) [Pass] [])
        [While (Name ''y'' Load) [Return None] []]
        [While (Name ''y'' Load) [IfStmt (Name ''x'' Load) [Pass] [], Return None] []]"
    by (intro ins_inside ins_While_body ins_here)
  have "compute (Module [While (Name ''y'' Load) [Return None] []])
          < compute (Module [While (Name ''y'' Load) [IfStmt (Name ''x'' Load) [Pass] [], Return None] []])"
    using C6_complexity_monotone[of "IfStmt (Name ''x'' Load) [Pass] []"
        "[While (Name ''y'' Load) [Return None] []]"
        "[While (Name ''y'' Load) [IfStmt (Name ''x'' Load) [Pass] [], Return None] []]"] i
    by simp
  then show ?thesis using i
    by (simp add: compute_def enter_def leave_def)
qed

subsection \<open>Architecture conformance\<close>

lemma imports_loop_files:
  "v \<in> set (imports_loop config path from_l imps violations) \<Longrightarrow>
   v \<in> set violations \<or> v_file v = path"
proof (induction imps arbitrary: violations)
  case Nil
  then show ?case by simp
next
  case (Cons a imps)
  obtain full_name root_name where a: "a = (full_name, root_name)" by (cases a)
  define target where "target = layer_for_module config (if full_name \<noteq> [] then full_name else root_name)"
  show ?case
  proof (cases target)
    case None
    then have "v \<in> set (imports_loop config path from_l imps violations)"
      using Cons.prems by (simp add: a target_def)
    from Cons.IH[OF this] show ?thesis .
  next
    case (Some target_layer)
    show ?thesis
    proof (cases "[from_l, target_layer] \<notin> set (allowed_edges config)")
      case True
      then have "v \<in> set (imports_loop config path from_l imps
                   (violations @ [\<lparr>v_file = path, from_layer = from_l, to_layer = target_layer,
                                   import_name = full_name\<rparr>]))"
        using Cons.prems Some by (simp add: a target_def)
      from Cons.IH[OF this] show ?thesis by auto
    next
      case False
      then have "v \<in> set (imports_loop config path from_l imps violations)"
        using Cons.prems Some by (simp add: a target_def)
      from Cons.IH[OF this] show ?thesis .
    qed
  qed
qed

lemma arch_loop_files:
  "v \<in> set (arch_loop config parse files violations) \<Longrightarrow>
   v \<in> set violations \<or> (\<exists>source. (v_file v, source) \<in> set files \<and> snd (safe_parse parse source))"
proof (induction files arbitrary: violations)
  case Nil
  then show ?case by simp
next
  case (Cons a files)
  obtain path source where a: "a = (path, source)" by (cases a)
  show ?case
  proof (cases "parse source")
    case None
    then have "v \<in> set (arch_loop config parse files violations)"
      using Cons.prems by (simp add: a safe_parse_def)
    from Cons.IH[OF this] show ?thesis by auto
  next
    case (Some tree)
    then have ok: "snd (safe_parse parse source)" by (simp add: safe_parse_def)
    show ?thesis
    proof (cases "layer_for_path config path")
      case None
      then have "v \<in> set (arch_loop config parse files violations)"
        using Cons.prems Some by (simp add: a safe_parse_def)
      from Cons.IH[OF this] show ?thesis by auto
    next
      case (Some from_l)
      then have "v \<in> set (arch_loop config parse files
                   (imports_loop config path from_l (iter_imports tree) violations))"
        using Cons.prems \<open>parse source = Some tree\<close> by (simp add: a safe_parse_def)
      from Cons.IH[OF this] have
        "v \<in> set (imports_loop config path from_l (iter_imports tree) violations)
         \<or> (\<exists>source. (v_file v, source) \<in> set files \<and> snd (safe_parse parse source))" .
      then show ?thesis
      proof
        assume "v \<in> set (imports_loop config path from_l (iter_imports tree) violations)"
        from imports_loop_files[OF this] show ?thesis using ok a by auto
      next
        assume "\<exists>source. (v_file v, source) \<in> set files \<and> snd (safe_parse parse source)"
        then show ?thesis by auto
      qed
    qed
  qed
qed

text \<open>
  C10.  For every configuration and every dictionary of sources (its items under distinct
  paths): a file whose source fails to parse (\<open>safe_parse\<close> returns \<open>ok = False\<close>) is the file
  of no violation the architecture analyzer returns.
\<close>

theorem C10_unparsed_file_has_no_violation:
  assumes "distinct (map fst files)" and "(path, source) \<in> set files"
    and "snd (safe_parse parse source) = False"
  shows "\<forall>v \<in> set (arch_analyze config parse files). v_file v \<noteq> path"
proof
  fix v assume "v \<in> set (arch_analyze config parse files)"
  then obtain source' where s: "(v_file v, source') \<in> set files" "snd (safe_parse parse source')"
    using arch_loop_files[of v config parse files "[]"] by (auto simp: arch_analyze_def)
  show "v_file v \<noteq> path"
  proof
    assume "v_file v = path"
    then have "(path, source') \<in> set files" using s(1) by simp
    from eq_key_imp_eq_value[OF assms(1) this assms(2)] have "source' = source" .
    then show False using s(2) assms(3) by simp
  qed
qed

theorem C10_unparsed_file_has_no_violation_witness:
  "distinct (map fst [(''src/ui/view.py'', ''import src.core.service''), (''src/ui/bad.py'', ''import ('')])
   \<and> (''src/ui/bad.py'', ''import ('')
        \<in> set [(''src/ui/view.py'', ''import src.core.service''), (''src/ui/bad.py'', ''import ('')]
   \<and> snd (safe_parse (\<lambda>s. if s = ''import src.core.service''
                               then Some (Module [Import [(''src.core.service'', None)]]) else None)
              ''import ('') = False
   \<and> ''src/ui/bad.py'' \<notin> v_file ` set (arch_analyze
          \<lparr>arch_layers = [''core'', ''ui''],
           arch_mapping = [(''src/core'', ''core''), (''src/ui'', ''ui'')],
           allowed_edges = [[''core'', ''core''], [''ui'', ''ui'']]\<rparr>
          (\<lambda>s. if s = ''import src.core.service''
               then Some (Module [Import [(''src.core.service'', None)]]) else None)
          [(''src/ui/view.py'', ''import src.core.service''), (''src/ui/bad.py'', ''import ('')])
   \<and> map v_file (arch_analyze
          \<lparr>arch_layers = [''core'', ''ui''],
           arch_mapping = [(''src/core'', ''core''), (''src/ui'', ''ui'')],
           allowed_edges = [[''core'', ''core''], [''ui'', ''ui'']]\<rparr>
          (\<lambda>s. if s = ''import src.core.service''
               then Some (Module [Import [(''src.core.service'', None)]]) else None)
          [(''src/ui/view.py'', ''import src.core.service''), (''src/ui/bad.py'', ''import ('')])
       = [''src/ui/view.py'']"
proof -
  define P :: "string \<Rightarrow> py_module option" where
    "P = (\<lambda>s. if s = ''import src.core.service''
               then Some (Module [Import [(''src.core.service'', None)]]) else None)"
  define files where
    "files = [(''src/ui/view.py'', ''import src.core.service''), (''src/ui/bad.py'', ''import ('')]"
  define config where
    "config = \<lparr>arch_layers = [''core'', ''ui''],
           arch_mapping = [(''src/core'', ''core''), (''src/ui'', ''ui'')],
           allowed_edges = [[''core'', ''core''], [''ui'', ''ui'']]\<rparr>"
  have d: "distinct (map fst files)" and m: "(''src/ui/bad.py'', ''import ('') \<in> set files"
    and f: "snd (safe_parse P ''import ('') = False"
    by (simp_all add: files_def P_def safe_parse_def)
  have "\<forall>v \<in> set (arch_analyze config P files). v_file v \<noteq> ''src/ui/bad.py''"
    by (rule C10_unparsed_file_has_no_violation[OF d m f])
  then have n: "''src/ui/bad.py'' \<notin> v_file ` set (arch_analyze config P files)" by auto
  have e: "map v_file (arch_analyze config P files) = [''src/ui/view.py'']"
    by (simp add: arch_analyze_def safe_parse_def layer_for_path_def layer_for_module_def
        sorted_prefixes_def iter_imports_def first_segment_def str_replace_char_def starts_with_def
        files_def P_def config_def)
  show ?thesis using d m f n e unfolding files_def P_def config_def by simp
qed


subsection \<open>Normalization under renaming\<close>

lemma same_kind_change_numbers: "same_kind change_numbers"
  by (simp add: same_kind_def change_numbers_def split: py_const.splits)

text \<open>
  C4.  The claim makes the fingerprints independent of the identifiers and of the values
  of the literals.  The transformer replaces the names of functions, classes and
  parameters, the identifiers of \<open>Name\<close> and \<open>Attribute\<close> nodes and the literals, but
  \<open>visit_arg\<close> does not visit the annotation of a parameter: after renaming \<open>A\<close>, \<open>f\<close>, \<open>x\<close>
  to \<open>B\<close>, \<open>g\<close>, \<open>y\<close> and changing the literal, the two normalized trees still differ in the
  annotation (\<open>A\<close> against \<open>B\<close>), and so do the texts \<open>ast.unparse\<close> gives for them and the
  tokens that are hashed.
\<close>

theorem C4_annotation_not_normalized:
  "same_kind change_numbers
   \<and> rename_module rename_A_f_x change_numbers annotated_def_module =
       Module [ClassDef ''B'' [] [] [Pass] [],
               FunctionDef ''g'' (Arguments [] [Arg ''y'' (Some (Name ''B'' Load))] None [] [] None [])
                 [Return (Some (Constant (CNum 2)))] [] None]
   \<and> NormalizingTransformer ''ID'' annotated_def_module =
       Module [ClassDef ''ID'' [] [] [Pass] [],
               FunctionDef ''ID'' (Arguments [] [Arg ''ID'' (Some (Name ''A'' Load))] None [] [] None [])
                 [Return (Some (Constant (CStr ''CONST'')))] [] None]
   \<and> NormalizingTransformer ''ID'' (rename_module rename_A_f_x change_numbers annotated_def_module) =
       Module [ClassDef ''ID'' [] [] [Pass] [],
               FunctionDef ''ID'' (Arguments [] [Arg ''ID'' (Some (Name ''B'' Load))] None [] [] None [])
                 [Return (Some (Constant (CStr ''CONST'')))] [] None]
   \<and> NormalizingTransformer ''ID'' (rename_module rename_A_f_x change_numbers annotated_def_module)
       \<noteq> NormalizingTransformer ''ID'' annotated_def_module"
  using same_kind_change_numbers
  by (simp add: annotated_def_module_def rename_module_def NormalizingTransformer_def
      rename_A_f_x_def change_numbers_def)

subsection \<open>The runner\<close>

lemma typing_analyze_degraded:
  "typing_analyze scale (ext_mypy ext) loc_map coverage = Inr typing \<Longrightarrow>
   t_degraded typing = mypy_degraded ext"
  by (cases "ext_mypy ext")
    (auto simp: typing_analyze_def mypy_degraded_def Let_def split: if_splits sum.splits)

lemma report_loop_eq:
  "report_loop config root_path sc dup cx lint typing items (acc, dm) =
     (acc @ map (\<lambda>(rel_path, loc). file_report config root_path sc dup cx lint typing rel_path loc) items,
      if items = [] then dm
      else dm \<union> (if l_degraded lint then {''lint''} else {})
              \<union> (if t_degraded typing then {''typing''} else {}))"
proof (induction items arbitrary: acc dm)
  case Nil
  then show ?case by simp
next
  case (Cons a items)
  obtain rel_path loc where a: "a = (rel_path, loc)" by (cases a)
  show ?case by (cases "items = []") (simp_all add: a Cons.IH Un_assoc)
qed

lemma run_Inr:
  assumes "run config ext root_path files = Inr report"
  obtains sc dup typing bootstrap where
    "scan_loop (ext_parse ext) root_path files
       \<lparr>s_sources = [], s_loc_map = [], s_roles = [], s_coverage_ratio = [],
        s_parser_success = []\<rparr> = Inr sc"
    and "dup_analyze (cfg_duplication config) (ext_md5 ext) (ext_parse ext) (ext_unparse ext)
           (s_sources sc) = Inr dup"
    and "typing_analyze (cfg_typing_scale config) (ext_mypy ext) (s_loc_map sc)
           (map_of (s_coverage_ratio sc)) = Inr typing"
    and "report_files report =
           map (\<lambda>(rel_path, loc). file_report config root_path sc dup
                  (complexity_analyze (cfg_complexity_scale config) (ext_parse ext) (s_sources sc) (s_loc_map sc))
                  (pylint_result config ext) typing rel_path loc) (s_loc_map sc)"
    and "degraded (project_confidence report) =
           sorted_list_of_set
             (if s_loc_map sc = [] then {}
              else (if l_degraded (pylint_result config ext) then {''lint''} else {})
                   \<union> (if t_degraded typing then {''typing''} else {}))"
    and "project_summary report = aggregate_project (report_files report) (cfg_roles config)"
    and "per_metric_duplication (project_confidence report) =
           mean_or_zero (map (conf_duplication \<circ> fr_confidence) (report_files report))"
    and "per_metric_lint (project_confidence report) =
           mean_or_zero (map (conf_lint \<circ> fr_confidence) (report_files report))"
    and "per_metric_typing (project_confidence report) =
           mean_or_zero (map (conf_typing \<circ> fr_confidence) (report_files report))"
    and "per_metric_complexity (project_confidence report) =
           mean_or_zero (map (conf_complexity \<circ> fr_confidence) (report_files report))"
proof -
  obtain sc where sc: "scan_loop (ext_parse ext) root_path files
       \<lparr>s_sources = [], s_loc_map = [], s_roles = [], s_coverage_ratio = [],
        s_parser_success = []\<rparr> = Inr sc"
    using assms by (cases "scan_loop (ext_parse ext) root_path files
       \<lparr>s_sources = [], s_loc_map = [], s_roles = [], s_coverage_ratio = [],
        s_parser_success = []\<rparr>") (simp_all add: run_def)
  obtain dup where dup: "dup_analyze (cfg_duplication config) (ext_md5 ext) (ext_parse ext) (ext_unparse ext)
           (s_sources sc) = Inr dup"
    using assms sc by (cases "dup_analyze (cfg_duplication config) (ext_md5 ext) (ext_parse ext) (ext_unparse ext)
           (s_sources sc)") (simp_all add: run_def)
  obtain typing where typing: "typing_analyze (cfg_typing_scale config) (ext_mypy ext) (s_loc_map sc)
           (map_of (s_coverage_ratio sc)) = Inr typing"
    using assms sc dup by (cases "typing_analyze (cfg_typing_scale config) (ext_mypy ext) (s_loc_map sc)
           (map_of (s_coverage_ratio sc))") (simp_all add: run_def)
  define cx where "cx = complexity_analyze (cfg_complexity_scale config) (ext_parse ext) (s_sources sc) (s_loc_map sc)"
  define fr where "fr = map (\<lambda>(rel_path, loc). file_report config root_path sc dup cx
                  (pylint_result config ext) typing rel_path loc) (s_loc_map sc)"
  have run_eq: "run config ext root_path files =
      (case bootstrap_interval (ext_Random ext) (map fr_grade fr)
                (cfg_iterations config) (cfg_seed config) of
           Inl e \<Rightarrow> Inl e
         | Inr bootstrap \<Rightarrow>
             Inr \<lparr>project_summary = aggregate_project fr (cfg_roles config),
                  project_confidence =
                    \<lparr>per_metric_duplication = mean_or_zero (map (conf_duplication \<circ> fr_confidence) fr),
                     per_metric_lint = mean_or_zero (map (conf_lint \<circ> fr_confidence) fr),
                     per_metric_typing = mean_or_zero (map (conf_typing \<circ> fr_confidence) fr),
                     per_metric_complexity = mean_or_zero (map (conf_complexity \<circ> fr_confidence) fr),
                     interval_grade = bootstrap,
                     degraded = sorted_list_of_set
                       (if s_loc_map sc = [] then {}
                        else (if l_degraded (pylint_result config ext) then {''lint''} else {})
                             \<union> (if t_degraded typing then {''typing''} else {}))\<rparr>,
                  architecture_violations = arch_analyze (cfg_arch config) (ext_parse ext) (s_sources sc),
                  report_files = fr\<rparr>)"
    unfolding run_def Let_def sc dup typing report_loop_eq sum.case fst_conv snd_conv
      pylint_result_def[symmetric] cx_def[symmetric] fr_def[symmetric] append_Nil
    by (simp only: Un_empty_left)
  obtain bootstrap where b: "bootstrap_interval (ext_Random ext) (map fr_grade fr)
                (cfg_iterations config) (cfg_seed config) = Inr bootstrap"
    using assms unfolding run_eq
    by (cases "bootstrap_interval (ext_Random ext) (map fr_grade fr)
                (cfg_iterations config) (cfg_seed config)") simp_all
  have "run config ext root_path files = Inr \<lparr>project_summary = aggregate_project fr (cfg_roles config),
                  project_confidence =
                    \<lparr>per_metric_duplication = mean_or_zero (map (conf_duplication \<circ> fr_confidence) fr),
                     per_metric_lint = mean_or_zero (map (conf_lint \<circ> fr_confidence) fr),
                     per_metric_typing = mean_or_zero (map (conf_typing \<circ> fr_confidence) fr),
                     per_metric_complexity = mean_or_zero (map (conf_complexity \<circ> fr_confidence) fr),
                     interval_grade = bootstrap,
                     degraded = sorted_list_of_set
                       (if s_loc_map sc = [] then {}
                        else (if l_degraded (pylint_result config ext) then {''lint''} else {})
                             \<union> (if t_degraded typing then {''typing''} else {}))\<rparr>,
                  architecture_violations = arch_analyze (cfg_arch config) (ext_parse ext) (s_sources sc),
                  report_files = fr\<rparr>"
    unfolding run_eq b by simp
  with assms have r: "report = \<lparr>project_summary = aggregate_project fr (cfg_roles config),
                  project_confidence =
                    \<lparr>per_metric_duplication = mean_or_zero (map (conf_duplication \<circ> fr_confidence) fr),
                     per_metric_lint = mean_or_zero (map (conf_lint \<circ> fr_confidence) fr),
                     per_metric_typing = mean_or_zero (map (conf_typing \<circ> fr_confidence) fr),
                     per_metric_complexity = mean_or_zero (map (conf_complexity \<circ> fr_confidence) fr),
                     interval_grade = bootstrap,
                     degraded = sorted_list_of_set
                       (if s_loc_map sc = [] then {}
                        else (if l_degraded (pylint_result config ext) then {''lint''} else {})
                             \<union> (if t_degraded typing then {''typing''} else {}))\<rparr>,
                  architecture_violations = arch_analyze (cfg_arch config) (ext_parse ext) (s_sources sc),
                  report_files = fr\<rparr>"
    by (simp only: sum.inject)
  show ?thesis
    by (rule that[OF sc dup typing]) (simp_all add: r fr_def cx_def)
qed

lemma starts_with_slash: "starts_with s ''/'' \<longleftrightarrow> (s \<noteq> [] \<and> hd s = CHR ''/'')"
  by (cases s) (auto simp: starts_with_def)

lemma join_with_hd:
  "ps \<noteq> [] \<Longrightarrow> hd ps \<noteq> [] \<Longrightarrow> join_with sep ps \<noteq> [] \<and> hd (join_with sep ps) = hd (hd ps)"
  by (induction sep ps rule: join_with.induct) auto

lemma relative_str_no_slash:
  assumes "list_all valid_name ps"
  shows "\<not> starts_with (path_str \<lparr>anchored = False, parts = ps\<rparr>) ''/''"
proof (cases ps)
  case Nil
  then show ?thesis by (simp add: path_str_def starts_with_def)
next
  case (Cons x xs)
  then have x: "x \<noteq> []" "hd x \<noteq> CHR ''/''"
    using assms by (auto simp: valid_name_def) (metis list.set_sel(1))
  have "hd (join_with ''/'' ps) = hd x" using join_with_hd[of ps "''/''"] x Cons by simp
  then show ?thesis using x Cons by (simp add: path_str_def starts_with_slash)
qed

lemma relative_to_resolved:
  assumes "resolved_path p" and "relative_to p root_path = Inr rel"
  shows "anchored root_path \<and> \<not> starts_with (path_str rel) ''/''"
proof -
  have a: "anchored root_path" and r: "rel = \<lparr>anchored = False, parts = drop (length (parts root_path)) (parts p)\<rparr>"
    using assms by (auto simp: relative_to_def resolved_path_def split: if_splits)
  have "list_all valid_name (drop (length (parts root_path)) (parts p))"
    using assms(1) by (auto simp: resolved_path_def list_all_iff dest: in_set_dropD)
  then show ?thesis using a r relative_str_no_slash by simp
qed

lemma joined_key_slash:
  assumes "anchored root_path" and "\<not> starts_with k ''/''"
  shows "starts_with (joined_key root_path k) ''/''"
  using assms
  by (simp add: joined_key_def path_join_def path_of_str_def path_str_def starts_with_def)

lemma fst_set_dict_set: "fst ` set (dict_set d k v) = insert k (fst ` set d)"
  by (induction d k v rule: dict_set.induct) auto

lemma scan_loop_keys:
  "scan_loop parse root_path files sc0 = Inr sc \<Longrightarrow> k \<in> fst ` set (s_loc_map sc) \<Longrightarrow>
   k \<in> fst ` set (s_loc_map sc0)
   \<or> (\<exists>p file_text rel. (p, file_text) \<in> set files \<and> relative_to p root_path = Inr rel \<and> k = path_str rel)"
proof (induction files arbitrary: sc0)
  case Nil
  then show ?case by simp
next
  case (Cons a files)
  obtain p file_text where a: "a = (p, file_text)" by (cases a)
  obtain rel where rel: "relative_to p root_path = Inr rel"
    using Cons.prems(1) by (cases "relative_to p root_path") (simp_all add: a read_text_def)
  define sc1 where "sc1 =
     \<lparr>s_sources = dict_set (s_sources sc0) (path_str rel) file_text,
      s_loc_map = dict_set (s_loc_map sc0) (path_str rel) (int (length (py_splitlines file_text))),
      s_roles = dict_set (s_roles sc0) (path_str rel) (detect_role p),
      s_coverage_ratio =
        dict_set (s_coverage_ratio sc0) (path_str rel) (coverage_of (safe_parse parse file_text)),
      s_parser_success =
        dict_set (s_parser_success sc0) (path_str rel) (snd (safe_parse parse file_text))\<rparr>"
  have "scan_loop parse root_path files sc1 = Inr sc"
    using Cons.prems(1) rel by (simp add: a read_text_def sc1_def Let_def)
  from Cons.IH[OF this Cons.prems(2)]
  have "k \<in> fst ` set (s_loc_map sc1)
     \<or> (\<exists>p file_text rel. (p, file_text) \<in> set files \<and> relative_to p root_path = Inr rel \<and> k = path_str rel)" .
  then show ?case
  proof
    assume "k \<in> fst ` set (s_loc_map sc1)"
    then have "k = path_str rel \<or> k \<in> fst ` set (s_loc_map sc0)"
      by (simp add: sc1_def fst_set_dict_set)
    then show ?thesis using rel a by auto
  next
    assume "\<exists>p file_text rel. (p, file_text) \<in> set files \<and> relative_to p root_path = Inr rel \<and> k = path_str rel"
    then show ?thesis by auto
  qed
qed

lemma typing_file_score_ok: "\<exists>s. typing_file_score scale err_count loc = Inr s"
proof -
  have "0 \<le> real (err_count * 1000) / real_of_int (max 1 loc)" by simp
  then show ?thesis
    by (cases "zero_score_at_20 scale = 0") (simp_all add: typing_file_score_def Let_def)
qed

lemma typing_scores_loop_dom:
  "typing_scores_loop scale errors loc_map scores = Inr res \<Longrightarrow>
   dom res \<subseteq> dom scores \<union> fst ` set loc_map"
proof (induction loc_map arbitrary: scores)
  case Nil
  then show ?case by simp
next
  case (Cons a loc_map)
  obtain path loc where a: "a = (path, loc)" by (cases a)
  obtain s where s: "typing_file_score scale (dict_get errors path 0) loc = Inr s"
    using typing_file_score_ok by blast
  have "typing_scores_loop scale errors loc_map (scores(path \<mapsto> s)) = Inr res"
    using Cons.prems s by (simp add: a)
  from Cons.IH[OF this] show ?case by (auto simp: a)
qed

lemma typing_analyze_dom:
  assumes "typing_analyze scale completed loc_map coverage = Inr typing"
  shows "dom (t_scores typing) \<subseteq> fst ` set loc_map"
proof (cases completed)
  case (Unavailable exc)
  then show ?thesis using assms by (auto simp: typing_analyze_def)
next
  case (Completed returncode out err)
  show ?thesis
  proof (cases "returncode \<notin> {0, 1}")
    case True
    then show ?thesis using assms Completed by (auto simp: typing_analyze_def)
  next
    case False
    define errors where "errors = count_errors (py_splitlines out) Map.empty"
    obtain res where res: "typing_scores_loop scale errors loc_map Map.empty = Inr res"
      and t: "t_scores typing = res"
      using assms Completed False
      by (cases "typing_scores_loop scale errors loc_map Map.empty")
        (auto simp: typing_analyze_def Let_def errors_def)
    show ?thesis using typing_scores_loop_dom[OF res] t by simp
  qed
qed

text \<open>
  C2.  In every scan that returns a report, over the resolved paths \<open>iter_python_files\<close>
  yields, the string of the root path joined with the relative path of a file differs from
  the relative path, and the typing score stored for the file is the default 100,
  whatever the type checker reported: the scores of \<open>TypingAnalyzer.analyze\<close> are keyed by the
  relative paths of \<open>loc_map\<close>, which do not start with a slash, and \<open>Runner.run\<close> looks them
  up under the joined path, which does.
\<close>

theorem C2_typing_score_is_default:
  assumes "run config ext root_path files = Inr report"
    and "\<forall>(p, file_text) \<in> set files. resolved_path p"
  shows "\<forall>f \<in> set (report_files report).
           joined_key root_path (fr_path f) \<noteq> fr_path f
           \<and> typing_score (fr_metrics f) = 100"
proof
  fix f assume f: "f \<in> set (report_files report)"
  from assms(1) obtain sc dup typing bootstrap where
    sc: "scan_loop (ext_parse ext) root_path files
       \<lparr>s_sources = [], s_loc_map = [], s_roles = [], s_coverage_ratio = [],
        s_parser_success = []\<rparr> = Inr sc"
    and typing: "typing_analyze (cfg_typing_scale config) (ext_mypy ext) (s_loc_map sc)
           (map_of (s_coverage_ratio sc)) = Inr typing"
    and fr: "report_files report =
           map (\<lambda>(rel_path, loc). file_report config root_path sc dup
                  (complexity_analyze (cfg_complexity_scale config) (ext_parse ext) (s_sources sc) (s_loc_map sc))
                  (pylint_result config ext) typing rel_path loc) (s_loc_map sc)"
    by (rule run_Inr)
  from f fr obtain rel_path loc where m: "(rel_path, loc) \<in> set (s_loc_map sc)"
    and fe: "f = file_report config root_path sc dup
                  (complexity_analyze (cfg_complexity_scale config) (ext_parse ext) (s_sources sc) (s_loc_map sc))
                  (pylint_result config ext) typing rel_path loc"
    by auto
  have keys: "anchored root_path \<and> \<not> starts_with k ''/''" if "k \<in> fst ` set (s_loc_map sc)" for k
  proof -
    from scan_loop_keys[OF sc that]
    obtain p file_text rel where "(p, file_text) \<in> set files" "relative_to p root_path = Inr rel"
      "k = path_str rel" by auto
    moreover have "resolved_path p" using assms(2) calculation(1) by auto
    ultimately show ?thesis using relative_to_resolved by blast
  qed
  have rk: "rel_path \<in> fst ` set (s_loc_map sc)" using m by force
  have slash: "starts_with (joined_key root_path rel_path) ''/''"
    using keys[OF rk] joined_key_slash by blast
  have ne: "joined_key root_path rel_path \<noteq> rel_path" using slash keys[OF rk] by auto
  have "joined_key root_path rel_path \<notin> fst ` set (s_loc_map sc)" using slash keys by blast
  then have "t_scores typing (joined_key root_path rel_path) = None"
    using typing_analyze_dom[OF typing] by blast
  then have "typing_score (fr_metrics f) = 100"
    by (simp add: fe file_report_def file_metrics_def dict_get_def Let_def)
  moreover have "fr_path f = rel_path" by (simp add: fe file_report_def Let_def)
  ultimately show "joined_key root_path (fr_path f) \<noteq> fr_path f \<and> typing_score (fr_metrics f) = 100"
    using ne by simp
qed

end
